theory Spec2Isabelle
  imports Complex_Main
begin

section \<open>Functional Information interpreter: data model\<close>

text \<open>
  The development embeds \<^verbatim>\<open>interpretdl/interpreter/functional_information.py\<close>:
  the class \<^verbatim>\<open>FunctionalInformationInterpreter\<close> with its two methods
  \<^verbatim>\<open>interpret\<close> and \<^verbatim>\<open>init_corr_mat\<close>.

  Python integers are \<open>int\<close>. Finite floating-point values are idealised as \<open>real\<close>
  (no rounding); where the code divides, the non-finite results of IEEE arithmetic are
  kept (\<open>0 / 0\<close> is \<open>NaN\<close>, \<open>x / 0\<close> an infinity), so the entries of a correlation matrix
  and of an explanation map are of type \<open>npfloat\<close>. A tensor of shape \<open>(N, C, H, W)\<close> is a record of its three trailing
  dimensions and the list of its \<open>N\<close> samples; a sample is the list of its \<open>C\<close> channels
  and a channel the row-major list of its \<open>H * W\<close> pixels, the layout the code itself
  flattens to (\<^verbatim>\<open>num_pixels\<close>).

  The method \<^verbatim>\<open>interpret\<close> is embedded in layers that follow its text: the stages of
  its pipeline (noise, chunked gradients, averaging, presentation), their composition
  \<open>interpret_core\<close> from line 102 to the return, and the method as it is written,
  \<open>interpret_call\<close>, whose first statements come before that pipeline.
\<close>

type_synonym label = int
type_synonym vec = "real list"
type_synonym sample = "vec list"

record ndarray4 =
  channels :: nat
  height :: nat
  width :: nat
  samples :: "sample list"

text \<open>Every sample of a numpy array has the array's trailing shape.\<close>

definition wf_data :: "ndarray4 \<Rightarrow> bool" where
  "wf_data d =
     list_all (\<lambda>smp. length smp = channels d \<and>
                     list_all (\<lambda>ch. length ch = height d * width d) smp) (samples d)"

datatype npfloat = Finite real | PosInf | NegInf | NaN

type_synonym matrix = "npfloat list list"

datatype error =
    SyntaxError string
  | ImportError string
  | UnboundLocalError string
  | NameError string
  | AssertionError string
  | KeyError label
  | ValueError string
  | IndexError string
  | LinAlgError string

subsection \<open>Python slices and indexing\<close>

text \<open>
  \<^verbatim>\<open>xs[a:b]\<close> and \<^verbatim>\<open>xs[a:]\<close> with Python's rules: a negative bound counts from the
  end, and every bound is clamped to the length.
\<close>

definition slice_index :: "int \<Rightarrow> nat \<Rightarrow> nat" where
  "slice_index a n = (if a < 0 then nat (max 0 (a + int n)) else min (nat a) n)"

definition py_slice :: "'a list \<Rightarrow> int \<Rightarrow> int \<Rightarrow> 'a list" where
  "py_slice xs a b =
     (let lo = slice_index a (length xs); hi = slice_index b (length xs)
      in take (hi - lo) (drop lo xs))"

definition py_slice_from :: "'a list \<Rightarrow> int \<Rightarrow> 'a list" where
  "py_slice_from xs a = drop (slice_index a (length xs)) xs"

text \<open>\<^verbatim>\<open>xs[i]\<close>: a negative index counts from the end; out of range raises IndexError.\<close>

definition py_get :: "'a list \<Rightarrow> int \<Rightarrow> 'a option" where
  "py_get xs i =
     (let n = int (length xs); j = (if i < 0 then n + i else i)
      in if 0 \<le> j \<and> j < n then Some (xs ! nat j) else None)"

text \<open>
  \<^verbatim>\<open>np.repeat(labels, k)\<close> repeats each element \<open>k\<close> times. The counts the code passes
  are never negative once \<^verbatim>\<open>n_samples\<close> is at least 1.
\<close>

definition np_repeat :: "'a list \<Rightarrow> int \<Rightarrow> 'a list" where
  "np_repeat xs k = concat (map (replicate (nat k)) xs)"

subsection \<open>Chunking (lines 157-170)\<close>

text \<open>
  The arguments of the calls to \<^verbatim>\<open>self.predict_fn\<close> that the chunked gradient stage
  makes, in call order: for \<^verbatim>\<open>split > 1\<close>, \<^verbatim>\<open>chunk = n_samples // split\<close>, one call
  for each \<^verbatim>\<open>i in range(split - 1)\<close> on \<^verbatim>\<open>data_noised[i * chunk:(i + 1) * chunk]\<close>
  with \<^verbatim>\<open>np.repeat(labels, chunk)\<close>, and a last call on
  \<^verbatim>\<open>data_noised[chunk * (split - 1):]\<close> with
  \<^verbatim>\<open>np.repeat(labels, n_samples - chunk * (split - 1))\<close>; otherwise a single call on
  the whole of \<^verbatim>\<open>data_noised\<close>.
\<close>

definition chunk_calls :: "'a list \<Rightarrow> label list \<Rightarrow> int \<Rightarrow> int \<Rightarrow> ('a list \<times> label list) list" where
  "chunk_calls data_noised labels n_samples split =
     (if split > 1 then
        (let chunk = n_samples div split
         in map (\<lambda>i. (py_slice data_noised (int i * chunk) ((int i + 1) * chunk),
                       np_repeat labels chunk))
                [0..<nat (split - 1)]
            @ [(py_slice_from data_noised (chunk * (split - 1)),
                np_repeat labels (n_samples - chunk * (split - 1)))])
      else [(data_noised, np_repeat labels n_samples)])"

subsection \<open>Non-finite arithmetic\<close>

text \<open>
  IEEE division as numpy performs it on a finite or non-finite dividend and a finite
  divisor: \<open>0 / 0\<close> is NaN, \<open>x / 0\<close> is an infinity, NaN propagates.
\<close>

definition fdiv :: "npfloat \<Rightarrow> real \<Rightarrow> npfloat" where
  "fdiv x y =
     (case x of
        NaN \<Rightarrow> NaN
      | Finite a \<Rightarrow>
          (if y = 0 then (if a = 0 then NaN else if 0 < a then PosInf else NegInf)
           else Finite (a / y))
      | PosInf \<Rightarrow> (if 0 \<le> y then PosInf else NegInf)
      | NegInf \<Rightarrow> (if 0 \<le> y then NegInf else PosInf))"

fun fplus :: "npfloat \<Rightarrow> npfloat \<Rightarrow> npfloat" where
  "fplus (Finite a) (Finite b) = Finite (a + b)"
| "fplus NaN _ = NaN"
| "fplus _ NaN = NaN"
| "fplus PosInf NegInf = NaN"
| "fplus NegInf PosInf = NaN"
| "fplus PosInf _ = PosInf"
| "fplus _ PosInf = PosInf"
| "fplus NegInf _ = NegInf"
| "fplus _ NegInf = NegInf"

definition fmul :: "real \<Rightarrow> npfloat \<Rightarrow> npfloat" where
  "fmul k x =
     (case x of
        NaN \<Rightarrow> NaN
      | Finite a \<Rightarrow> Finite (k * a)
      | PosInf \<Rightarrow> (if 0 < k then PosInf else if k < 0 then NegInf else NaN)
      | NegInf \<Rightarrow> (if 0 < k then NegInf else if k < 0 then PosInf else NaN))"

definition fabs :: "npfloat \<Rightarrow> npfloat" where
  "fabs x = (case x of NaN \<Rightarrow> NaN | Finite a \<Rightarrow> Finite \<bar>a\<bar> | PosInf \<Rightarrow> PosInf | NegInf \<Rightarrow> PosInf)"

text \<open>\<^verbatim>\<open>np.clip(x, -1, 1)\<close>.\<close>

definition fclip :: "npfloat \<Rightarrow> npfloat" where
  "fclip x =
     (case x of
        NaN \<Rightarrow> NaN
      | Finite a \<Rightarrow> Finite (max (- 1) (min 1 a))
      | PosInf \<Rightarrow> Finite 1
      | NegInf \<Rightarrow> Finite (- 1))"

subsection \<open>The numpy functions the estimator calls\<close>

text \<open>
  \<^verbatim>\<open>np.cov(X, rowvar=False)\<close> for \<open>X\<close> of shape \<open>(n, d)\<close>: the columns are the variables,
  the rows the observations, and the normalisation is \<open>n - 1\<close>.
\<close>

definition np_cov :: "vec list \<Rightarrow> nat \<Rightarrow> real list list" where
  "np_cov X d =
     (let n = length X;
          avg = map (\<lambda>j. (\<Sum>r\<leftarrow>X. r ! j) / real n) [0..<d];
          fact = real n - 1
      in map (\<lambda>i. map (\<lambda>j. (\<Sum>r\<leftarrow>X. (r ! i - avg ! i) * (r ! j - avg ! j)) * (1 / fact))
                      [0..<d]) [0..<d])"

text \<open>
  \<^verbatim>\<open>np.corrcoef(X, rowvar=False)\<close>: the covariance, divided by the standard deviation of
  its row and then by the standard deviation of its column (\<^verbatim>\<open>c /= stddev[:, None]\<close>,
  \<^verbatim>\<open>c /= stddev[None, :]\<close>), then clipped to \<open>[-1, 1]\<close>.
\<close>

definition np_corrcoef :: "vec list \<Rightarrow> nat \<Rightarrow> matrix" where
  "np_corrcoef X d =
     (let c = np_cov X d;
          stddev = map (\<lambda>i. sqrt (c ! i ! i)) [0..<d]
      in map (\<lambda>i. map (\<lambda>j. fclip (fdiv (fdiv (Finite (c ! i ! j)) (stddev ! i)) (stddev ! j)))
                      [0..<d]) [0..<d])"

text \<open>\<^verbatim>\<open>corr_matrix += np.eye(num_pixels) * epsilon\<close> (lines 259-260).\<close>

definition epsilon :: real where
  "epsilon = 1 / 100000"

definition add_eye :: "matrix \<Rightarrow> nat \<Rightarrow> real \<Rightarrow> matrix" where
  "add_eye M d e =
     map (\<lambda>i. map (\<lambda>j. fplus (M ! i ! j) (Finite (if i = j then e else 0))) [0..<d]) [0..<d]"

text \<open>\<^verbatim>\<open>np.unique\<close>: the distinct values, sorted.\<close>

definition np_unique :: "label list \<Rightarrow> label list" where
  "np_unique ls = sort (remdups ls)"

text \<open>
  \<^verbatim>\<open>np.where(mask)[0]\<close> for the elementwise mask of a comparison with a label: the
  positions that hold the label.
\<close>

definition np_where_eq :: "label list \<Rightarrow> label \<Rightarrow> nat list" where
  "np_where_eq ls c = filter (\<lambda>i. ls ! i = c) [0..<length ls]"

text \<open>
  \<^verbatim>\<open>np.mean(gradients, axis=0)\<close> for a batch of shape \<open>(n, c, p)\<close>: the sum over the
  batch divided by its size, NaN for an empty batch.
\<close>

definition np_mean_axis0 :: "nat \<Rightarrow> nat \<Rightarrow> sample list \<Rightarrow> npfloat list list" where
  "np_mean_axis0 c p gradients =
     map (\<lambda>i. map (\<lambda>j. fdiv (Finite (\<Sum>g\<leftarrow>gradients. g ! i ! j)) (real (length gradients)))
                     [0..<p]) [0..<c]"

text \<open>\<^verbatim>\<open>np.abs(a).sum(0)\<close> for \<open>a\<close> of shape \<open>(c, p)\<close>.\<close>

definition abs_sum0 :: "npfloat list list \<Rightarrow> npfloat list" where
  "abs_sum0 a =
     map (\<lambda>j. foldl (\<lambda>acc ch. fplus acc (fabs (ch ! j))) (Finite 0) a) [0..<length (a ! 0)]"

text \<open>
  \<^verbatim>\<open>data + correlated_noise\<close> for \<open>data\<close> of shape \<open>(N, C, H, W)\<close> and noise of shape
  \<open>(1, 3, H, W)\<close>: numpy broadcasts the batch axis, and the channel axis when \<open>C = 1\<close>;
  any other channel count raises ValueError.
\<close>

definition np_add_broadcast :: "ndarray4 \<Rightarrow> sample \<Rightarrow> sample list option" where
  "np_add_broadcast data noise =
     (if channels data = 3 then
        Some (map (\<lambda>smp. map2 (map2 (+)) smp noise) (samples data))
      else if channels data = 1 then
        Some (map (\<lambda>smp. map (\<lambda>nz. map2 (+) (smp ! 0) nz) noise) (samples data))
      else None)"

definition square :: "matrix \<Rightarrow> nat \<Rightarrow> bool" where
  "square M d = (length M = d \<and> list_all (\<lambda>row. length row = d) M)"

text \<open>Whether every entry of a matrix is a finite number.\<close>

definition finite_matrix :: "matrix \<Rightarrow> bool" where
  "finite_matrix M = list_all (list_all (\<lambda>x. case x of Finite a \<Rightarrow> True | _ \<Rightarrow> False)) M"

subsection \<open>Labels as a list or as an array\<close>

text \<open>
  The docstrings allow labels and classes as a Python list or as an \<^verbatim>\<open>np.ndarray\<close>. The
  two differ under \<^verbatim>\<open>==\<close>: an array compares elementwise with anything, and so does a
  list with a numpy scalar (the elements of an array, of \<^verbatim>\<open>np.unique\<close>'s result), but a
  list compared with a Python integer is the single Boolean \<open>False\<close>.
\<close>

datatype pyseq = PyList "label list" | NdArray "label list"

primrec items :: "pyseq \<Rightarrow> label list" where
  "items (PyList xs) = xs"
| "items (NdArray xs) = xs"

primrec is_ndarray :: "pyseq \<Rightarrow> bool" where
  "is_ndarray (PyList xs) = False"
| "is_ndarray (NdArray xs) = True"

section \<open>Collaborators and state\<close>

text \<open>
  The collaborators are code outside this file and are parameters of the model:
  the reader pipeline, the gradient function that \<^verbatim>\<open>_build_predict_fn\<close> installs as
  \<^verbatim>\<open>self.predict_fn\<close> for a \<^verbatim>\<open>gradient_of\<close>, numpy's sampler (the draw returned by the
  call made after \<open>k\<close> earlier draws, as a function of mean and covariance: a seeded
  generator; what it returns when it returns), and the visualizer. A call of
  \<^verbatim>\<open>predict_fn\<close> returns (gradients, predicted labels, predicted probabilities).
  \<open>nonzero_0d_raises\<close> says which numpy is installed: \<^verbatim>\<open>np.where\<close> of a single Boolean
  gives no index for \<open>False\<close> in the older versions and raises ValueError in the newer.
\<close>

type_synonym display_image = "nat list list list"
type_synonym vis_image = "nat list list list"
type_synonym predict_fn = "sample list \<Rightarrow> label list option \<Rightarrow> sample list \<times> label list \<times> real list"

record collaborators =
  images_transform_pipeline :: "string list \<Rightarrow> int \<Rightarrow> int option \<Rightarrow> display_image list \<times> ndarray4"
  build_predict_fn :: "string \<Rightarrow> predict_fn"
  multivariate_normal :: "nat \<Rightarrow> vec \<Rightarrow> matrix \<Rightarrow> vec"
  preprocess_save_path :: "string option \<Rightarrow> nat \<Rightarrow> string option list"
  explanation_to_vis :: "display_image \<Rightarrow> npfloat list \<Rightarrow> vis_image"
  nonzero_0d_raises :: bool

text \<open>
  What a call can change: the attributes of the interpreter instance
  (\<^verbatim>\<open>self.predicted_label\<close>, \<^verbatim>\<open>self.predicted_proba\<close>, \<^verbatim>\<open>self.labels\<close>; \<open>None\<close> while
  unset), the draws taken from the random generator (each with the mean and covariance it
  was asked for), the calls made to \<^verbatim>\<open>predict_fn\<close> (with their arguments, oldest
  first), the images shown and saved, and the files written by \<^verbatim>\<open>np.save\<close>.
\<close>

record state =
  predicted_label :: "label list option"
  predicted_proba :: "real list option"
  labels_attr :: "label list option"
  noise_draws :: "(vec \<times> matrix) list"
  predict_calls :: "(sample list \<times> label list option) list"
  shown :: "vis_image list"
  saved :: "(string \<times> vis_image) list"
  files :: "string \<Rightarrow> (label \<Rightarrow> matrix option) option"

section \<open>The attribution engine: the body of interpret\<close>

subsection \<open>Noise sampling (lines 117-137)\<close>

text \<open>
  One iteration of \<^verbatim>\<open>for i in range(n_samples)\<close> per step: a draw of size 1 with mean
  \<^verbatim>\<open>np.zeros(num_pixels)\<close> and the scaled covariance, reshaped to \<open>(1, H, W)\<close>, repeated
  3 times along a new channel axis, added to \<^verbatim>\<open>data\<close> and appended. The sampler raises
  ValueError for a covariance that is not \<open>num_pixels \<times> num_pixels\<close>, and LinAlgError for
  one that holds a NaN or an infinity: its singular value decomposition does not converge.
  In both cases nothing is drawn.
\<close>

fun noise_loop :: "collaborators \<Rightarrow> ndarray4 \<Rightarrow> matrix \<Rightarrow> nat \<Rightarrow> state \<Rightarrow> (error + sample list list) \<times> state" where
  "noise_loop C data cov 0 s = (Inr [], s)"
| "noise_loop C data cov (Suc k) s =
     (let num_pixels = height data * width data;
          mean = replicate num_pixels 0
      in if \<not> square cov num_pixels then
           (Inl (ValueError ''mean and cov must have same length''), s)
         else if \<not> finite_matrix cov then
           (Inl (LinAlgError ''SVD did not converge''), s)
         else
           (let correlated_noise = multivariate_normal C (length (noise_draws s)) mean cov;
                s1 = s\<lparr>noise_draws := noise_draws s @ [(mean, cov)]\<rparr>
            in if length correlated_noise \<noteq> num_pixels then
                 (Inl (ValueError ''cannot reshape array''), s1)
               else
                 (case np_add_broadcast data (replicate 3 correlated_noise) of
                    None \<Rightarrow> (Inl (ValueError ''operands could not be broadcast together''), s1)
                  | Some noised_sample \<Rightarrow>
                      (case noise_loop C data cov k s1 of
                         (Inl e, s2) \<Rightarrow> (Inl e, s2)
                       | (Inr rest, s2) \<Rightarrow> (Inr (noised_sample # rest), s2)))))"

text \<open>
  \<^verbatim>\<open>covariance_matrix = noise_amount * corr_mat\<close>, the loop, and
  \<^verbatim>\<open>np.concatenate(data_noised, axis=0)\<close>, which raises ValueError on an empty list.
\<close>

definition noised_data :: "collaborators \<Rightarrow> ndarray4 \<Rightarrow> matrix \<Rightarrow> real \<Rightarrow> int \<Rightarrow> state \<Rightarrow> (error + sample list) \<times> state" where
  "noised_data C data corr_mat noise_amount n_samples s =
     (let covariance_matrix = map (map (fmul noise_amount)) corr_mat
      in case noise_loop C data covariance_matrix (nat n_samples) s of
           (Inl e, s1) \<Rightarrow> (Inl e, s1)
         | (Inr data_noised, s1) \<Rightarrow>
             if data_noised = [] then
               (Inl (ValueError ''need at least one array to concatenate''), s1)
             else (Inr (concat data_noised), s1))"

subsection \<open>Chunked gradients (lines 157-170)\<close>

text \<open>The gradients of the chunk calls, concatenated in call order; each call is logged.\<close>

definition chunked_gradients :: "predict_fn \<Rightarrow> sample list \<Rightarrow> label list \<Rightarrow> int \<Rightarrow> int \<Rightarrow> state \<Rightarrow> sample list \<times> state" where
  "chunked_gradients predict_fn data_noised labels n_samples split s =
     (let calls = chunk_calls data_noised labels n_samples split
      in (concat (map (\<lambda>(b, ls). fst (predict_fn b (Some ls))) calls),
          s\<lparr>predict_calls := predict_calls s @ map (\<lambda>(b, ls). (b, Some ls)) calls\<rparr>))"

subsection \<open>Label resolution to averaging (lines 102-172)\<close>

text \<open>
  The reader pipeline, the first call of \<^verbatim>\<open>predict_fn\<close> on the unperturbed input, the
  two attributes, \<^verbatim>\<open>np.array(labels).reshape((1, ))\<close> (ValueError unless there is
  exactly one label), the dictionary lookup \<^verbatim>\<open>correlation_matrices[labels[0]]\<close>
  (KeyError when the label has no entry), noise, chunked gradients, and
  \<^verbatim>\<open>np.mean(gradients, axis=0, keepdims=True)\<close>. The gradient batch has the shape of
  the noised batch, \<open>(n, 3, H, W)\<close>. The result holds \<^verbatim>\<open>imgs\<close>, the resolved
  \<^verbatim>\<open>labels\<close> and \<^verbatim>\<open>avg_gradients\<close>.
\<close>

definition interpret_avg :: "collaborators \<Rightarrow> string list \<Rightarrow> label list option \<Rightarrow> (label \<Rightarrow> matrix option) \<Rightarrow> real \<Rightarrow> int \<Rightarrow> int \<Rightarrow> string \<Rightarrow> int \<Rightarrow> int option \<Rightarrow> state \<Rightarrow> (error + display_image list \<times> label list \<times> npfloat list list list) \<times> state" where
  "interpret_avg C inputs labels correlation_matrices noise_amount n_samples split gradient_of resize_to crop_to s =
     (case images_transform_pipeline C inputs resize_to crop_to of (imgs, data) \<Rightarrow>
      let predict_fn = build_predict_fn C gradient_of
      in case predict_fn (samples data) labels of (_, predicted_label', predicted_proba') \<Rightarrow>
      let s1 = s\<lparr>predicted_label := Some predicted_label',
                 predicted_proba := Some predicted_proba',
                 predict_calls := predict_calls s @ [(samples data, labels)]\<rparr>;
          labels1 = (case labels of None \<Rightarrow> predicted_label' | Some l \<Rightarrow> l)
      in if length labels1 \<noteq> 1 then
           (Inl (ValueError ''cannot reshape array into shape (1,)''), s1)
         else
           (case correlation_matrices (labels1 ! 0) of
              None \<Rightarrow> (Inl (KeyError (labels1 ! 0)), s1)
            | Some corr_mat \<Rightarrow>
                (case noised_data C data corr_mat noise_amount n_samples s1 of
                   (Inl e, s2) \<Rightarrow> (Inl e, s2)
                 | (Inr data_noised, s2) \<Rightarrow>
                     (case chunked_gradients predict_fn data_noised labels1 n_samples split s2 of
                        (gradients, s3) \<Rightarrow>
                          (Inr (imgs, labels1,
                                [np_mean_axis0 3 (height data * width data) gradients]), s3)))))"

subsection \<open>Presentation and return (lines 173-189)\<close>

text \<open>
  The index \<^verbatim>\<open>i\<close> of lines 180-184 is not bound by a loop of its own: it is the value
  the last executed \<^verbatim>\<open>for i in ...\<close> left behind, \<^verbatim>\<open>split - 2\<close> after the chunk loop
  and \<^verbatim>\<open>n_samples - 1\<close> after the noise loop when \<^verbatim>\<open>split\<close> is at most 1.
\<close>

definition stale_i :: "int \<Rightarrow> int \<Rightarrow> int" where
  "stale_i n_samples split = (if split > 1 then split - 2 else n_samples - 1)"

definition present :: "collaborators \<Rightarrow> display_image list \<Rightarrow> npfloat list list list \<Rightarrow> int \<Rightarrow> bool \<Rightarrow> string option \<Rightarrow> state \<Rightarrow> (error + unit) \<times> state" where
  "present C imgs avg_gradients i visual save_path s =
     (if save_path = None \<and> \<not> visual then (Inr (), s)
      else
        (let save_path1 = preprocess_save_path C save_path 1
         in case py_get imgs i of
              None \<Rightarrow> (Inl (IndexError ''index is out of bounds for axis 0''), s)
            | Some img \<Rightarrow>
                (let vis_explanation = explanation_to_vis C img (abs_sum0 (avg_gradients ! 0));
                     s1 = (if visual then s\<lparr>shown := shown s @ [vis_explanation]\<rparr> else s)
                 in case py_get save_path1 i of
                      None \<Rightarrow> (Inl (IndexError ''list index out of range''), s1)
                    | Some None \<Rightarrow> (Inr (), s1)
                    | Some (Some p) \<Rightarrow>
                        (Inr (), s1\<lparr>saved := saved s1 @ [(p, vis_explanation)]\<rparr>))))"

text \<open>
  The body of \<^verbatim>\<open>interpret\<close> from line 102 on, entered with the mapping of correlation
  matrices that lines 95-100 are written to load or estimate.
\<close>

definition interpret_core :: "collaborators \<Rightarrow> string list \<Rightarrow> label list option \<Rightarrow> (label \<Rightarrow> matrix option) \<Rightarrow> real \<Rightarrow> int \<Rightarrow> int \<Rightarrow> string \<Rightarrow> int \<Rightarrow> int option \<Rightarrow> bool \<Rightarrow> string option \<Rightarrow> state \<Rightarrow> (error + npfloat list list list) \<times> state" where
  "interpret_core C inputs labels correlation_matrices noise_amount n_samples split gradient_of resize_to crop_to visual save_path s =
     (case interpret_avg C inputs labels correlation_matrices noise_amount n_samples split
             gradient_of resize_to crop_to s of
        (Inl e, s1) \<Rightarrow> (Inl e, s1)
      | (Inr (imgs, labels1, avg_gradients), s1) \<Rightarrow>
          (case present C imgs avg_gradients (stale_i n_samples split) visual save_path s1 of
             (Inl e, s2) \<Rightarrow> (Inl e, s2)
           | (Inr _, s2) \<Rightarrow> (Inr avg_gradients, s2\<lparr>labels_attr := Some labels1\<rparr>)))"

section \<open>interpret as it is written\<close>

subsection \<open>Definition time (lines 9, 45-58, 100)\<close>

text \<open>
  The parameter list of \<^verbatim>\<open>interpret\<close>, each name with whether it has a default, and
  the arguments of the call of \<^verbatim>\<open>self.init_corr_mat\<close> on line 100, each with whether it
  is passed by keyword. Python's compiler refuses a parameter without a default after one
  with a default, and a positional argument after a keyword argument.
\<close>

definition interpret_params :: "(string \<times> bool) list" where
  "interpret_params =
     [(''self'', False), (''inputs'', False), (''labels'', True), (''dataset'', False),
      (''dataset_labels'', True), (''noise_amount'', True), (''n_samples'', True),
      (''split'', True), (''gradient_of'', True), (''resize_to'', True), (''crop_to'', True),
      (''visual'', True), (''save_path'', True)]"

definition init_corr_mat_call :: "(string \<times> bool) list" where
  "init_corr_mat_call =
     [(''dataset'', False), (''labels'', True), (''specific_classes'', True),
      (''resize_to'', False), (''crop_to'', False), (''save_path'', True), (''visual'', True)]"

fun params_ok :: "(string \<times> bool) list \<Rightarrow> bool" where
  "params_ok [] = True"
| "params_ok ((x, has_default) # ps) =
     ((if has_default then list_all snd ps else True) \<and> params_ok ps)"

fun call_args_ok :: "(string \<times> bool) list \<Rightarrow> bool" where
  "call_args_ok [] = True"
| "call_args_ok ((x, by_keyword) # args) =
     ((if by_keyword then list_all snd args else True) \<and> call_args_ok args)"

text \<open>The names bound at module level (lines 1-12).\<close>

definition module_globals :: "string list" where
  "module_globals =
     [''np'', ''os'', ''tqdm'', ''InputGradientInterpreter'', ''images_transform_pipeline'',
      ''preprocess_save_path'', ''explanation_to_vis'', ''show_vis_explanation'',
      ''save_image'', ''resner'', ''FunctionalInformationInterpreter'']"

text \<open>
  Loading the module, given the names that \<^verbatim>\<open>torchvision.models\<close> exports: the file is
  compiled as a whole first, then line 9 imports \<^verbatim>\<open>resner\<close>.
\<close>

definition load_module :: "string list \<Rightarrow> error + unit" where
  "load_module torchvision_models =
     (if \<not> params_ok interpret_params then
        Inl (SyntaxError ''non-default argument follows default argument'')
      else if \<not> call_args_ok init_corr_mat_call then
        Inl (SyntaxError ''positional argument follows keyword argument'')
      else if ''resner'' \<notin> set torchvision_models then
        Inl (ImportError ''cannot import name resner from torchvision.models'')
      else Inr ())"

subsection \<open>The call (lines 93-189)\<close>

text \<open>
  The body for any content of the two names its first statements read: the local
  variable \<^verbatim>\<open>data\<close> (\<open>None\<close> while unassigned) and the global
  \<^verbatim>\<open>save_path_corr_mat\<close> (\<open>None\<close> when no such name is bound). Line 93 asserts
  \<^verbatim>\<open>len(data) == 1\<close>; line 95 asks whether the file exists and line 97 loads it; the
  call on line 100 is not a well-formed call and is given no value.
\<close>

definition interpret_frame :: "collaborators \<Rightarrow> ndarray4 option \<Rightarrow> string option \<Rightarrow> string list \<Rightarrow> label list option \<Rightarrow> real \<Rightarrow> int \<Rightarrow> int \<Rightarrow> string \<Rightarrow> int \<Rightarrow> int option \<Rightarrow> bool \<Rightarrow> string option \<Rightarrow> state \<Rightarrow> (error + npfloat list list list) \<times> state" where
  "interpret_frame C data_local save_path_corr_mat inputs labels noise_amount n_samples split gradient_of resize_to crop_to visual save_path s =
     (case data_local of
        None \<Rightarrow> (Inl (UnboundLocalError ''data''), s)
      | Some data0 \<Rightarrow>
          if length (samples data0) \<noteq> 1 then
            (Inl (AssertionError ''interpret each sample individually, it is optimized.''), s)
          else
            (case save_path_corr_mat of
               None \<Rightarrow> (Inl (NameError ''save_path_corr_mat''), s)
             | Some p \<Rightarrow>
                 (case files s p of
                    None \<Rightarrow> (Inl (SyntaxError ''positional argument follows keyword argument''), s)
                  | Some correlation_matrices \<Rightarrow>
                      interpret_core C inputs labels correlation_matrices noise_amount n_samples
                        split gradient_of resize_to crop_to visual save_path s)))"

text \<open>
  A call of \<^verbatim>\<open>interpret\<close> (the name is an Isabelle keyword, hence \<open>interpret_call\<close>):
  no parameter is named \<^verbatim>\<open>data\<close>, so the local is unassigned
  until line 102; no parameter, local or module-level name is \<^verbatim>\<open>save_path_corr_mat\<close>.
\<close>

definition interpret_call :: "collaborators \<Rightarrow> string list \<Rightarrow> label list option \<Rightarrow> string list \<Rightarrow> label list option \<Rightarrow> real \<Rightarrow> int \<Rightarrow> int \<Rightarrow> string \<Rightarrow> int \<Rightarrow> int option \<Rightarrow> bool \<Rightarrow> string option \<Rightarrow> state \<Rightarrow> (error + npfloat list list list) \<times> state" where
  "interpret_call C inputs labels dataset dataset_labels noise_amount n_samples split gradient_of resize_to crop_to visual save_path s =
     interpret_frame C None None inputs labels noise_amount n_samples split gradient_of
       resize_to crop_to visual save_path s"

section \<open>The correlation estimator: init_corr_mat (lines 192-272)\<close>

text \<open>
  Line 242, \<^verbatim>\<open>np.where(labels == class_label)[0]\<close>: the positions of the class when the
  comparison is elementwise (the labels are an array, or the class is a numpy scalar);
  otherwise the comparison is \<open>False\<close> and there is no position, or a ValueError.
\<close>

definition class_indices_of :: "bool \<Rightarrow> pyseq \<Rightarrow> bool \<Rightarrow> label \<Rightarrow> error + nat list" where
  "class_indices_of raises labels numpy_class class_label =
     (if is_ndarray labels \<or> numpy_class then Inr (np_where_eq (items labels) class_label)
      else if raises then Inl (ValueError ''Calling nonzero on 0d arrays is not allowed'')
      else Inr [])"

text \<open>
  The loop over the classes. \<^verbatim>\<open>data[class_indices]\<close> raises IndexError when a position
  is past the batch; a class with fewer than 2 samples is skipped; otherwise channel 0 of
  each sample, already flat, is a row of the \<open>(n, num_pixels)\<close> matrix that
  \<^verbatim>\<open>np.corrcoef\<close> receives, and the result with \<open>\<epsilon>\<close> added on the diagonal is stored
  under the class.
\<close>

fun corr_loop :: "bool \<Rightarrow> ndarray4 \<Rightarrow> pyseq \<Rightarrow> bool \<Rightarrow> label list \<Rightarrow> (label \<Rightarrow> matrix option) \<Rightarrow> error + (label \<Rightarrow> matrix option)" where
  "corr_loop raises data labels numpy_class [] correlation_matrices = Inr correlation_matrices"
| "corr_loop raises data labels numpy_class (class_label # rest) correlation_matrices =
     (case class_indices_of raises labels numpy_class class_label of
        Inl e \<Rightarrow> Inl e
      | Inr class_indices \<Rightarrow>
          if list_ex (\<lambda>i. length (samples data) \<le> i) class_indices then
            Inl (IndexError ''index is out of bounds for axis 0'')
          else
            (let class_data = map (\<lambda>i. samples data ! i) class_indices
             in if length class_data < 2 then
                  corr_loop raises data labels numpy_class rest correlation_matrices
                else
                  (let num_pixels = height data * width data;
                       X = map (\<lambda>smp. smp ! 0) class_data;
                       corr_matrix = add_eye (np_corrcoef X num_pixels) num_pixels epsilon
                   in corr_loop raises data labels numpy_class rest
                        (correlation_matrices(class_label \<mapsto> corr_matrix)))))"

text \<open>\<^verbatim>\<open>np.save\<close> appends \<^verbatim>\<open>.npy\<close> to a file name that does not end with it.\<close>

definition npy_name :: "string \<Rightarrow> string" where
  "npy_name p = (if drop (length p - 4) p = ''.npy'' then p else p @ ''.npy'')"

text \<open>
  The method: the reader pipeline, the assertion on the channel count (line 233), the
  classes (\<^verbatim>\<open>np.unique(labels)\<close>, numpy scalars, unless \<^verbatim>\<open>specific_classes\<close> is given:
  then its elements, numpy scalars when it is an array), the loop, and the save when
  \<^verbatim>\<open>save_path\<close> is neither \<open>None\<close> nor empty. \<^verbatim>\<open>visual\<close> only prints.
\<close>

definition init_corr_mat :: "collaborators \<Rightarrow> string list \<Rightarrow> pyseq \<Rightarrow> pyseq option \<Rightarrow> int \<Rightarrow> int option \<Rightarrow> string option \<Rightarrow> bool \<Rightarrow> state \<Rightarrow> (error + (label \<Rightarrow> matrix option)) \<times> state" where
  "init_corr_mat C inputs labels specific_classes resize_to crop_to save_path visual s =
     (case images_transform_pipeline C inputs resize_to crop_to of (imgs, data) \<Rightarrow>
      if channels data \<noteq> 3 then
        (Inl (AssertionError ''Expected 3 channels (RGB), but got different shape!''), s)
      else
        (let unique_classes =
               (case specific_classes of None \<Rightarrow> np_unique (items labels) | Some cs \<Rightarrow> items cs);
             numpy_class = (case specific_classes of None \<Rightarrow> True | Some cs \<Rightarrow> is_ndarray cs)
         in case corr_loop (nonzero_0d_raises C) data labels numpy_class unique_classes
                   Map.empty of
              Inl e \<Rightarrow> (Inl e, s)
            | Inr correlation_matrices \<Rightarrow>
                (Inr correlation_matrices,
                 (case save_path of
                    None \<Rightarrow> s
                  | Some p \<Rightarrow>
                      if p = [] then s
                      else s\<lparr>files := (files s)(npy_name p \<mapsto> correlation_matrices)\<rparr>))))"

text \<open>The deviation of observation \<open>q\<close> from the mean of variable \<open>i\<close>, as \<^verbatim>\<open>np.cov\<close> forms it.\<close>

definition centred :: "vec list \<Rightarrow> nat \<Rightarrow> nat \<Rightarrow> real" where
  "centred X q i = X ! q ! i - (\<Sum>r\<leftarrow>X. r ! i) / real (length X)"

text \<open>The matrix that the loop stores for a class with at least 2 samples.\<close>

definition class_matrix :: "ndarray4 \<Rightarrow> label list \<Rightarrow> label \<Rightarrow> matrix" where
  "class_matrix data labels c =
     add_eye (np_corrcoef (map (\<lambda>smp. smp ! 0) (map (\<lambda>i. samples data ! i) (np_where_eq labels c)))
                (height data * width data))
       (height data * width data) epsilon"

section \<open>A small instance\<close>

text \<open>
  Concrete collaborators on which the theorems below are exercised: a reader pipeline
  that returns one \<open>3 \<times> 1 \<times> 2\<close> image for an input, a one-channel image for the input
  \<^verbatim>\<open>gray\<close>, a reference set of three images for the input \<^verbatim>\<open>dataset\<close> and one of two
  images for the input \<^verbatim>\<open>varied\<close>; a gradient
  function that works sample by sample (twice the sample, class 7, probability 1/2); a
  sampler whose draw after \<open>k\<close> earlier draws is the constant vector \<open>k + 1\<close>; a
  visualizer that hands the display image back; and an older numpy.
\<close>

definition ex_data :: ndarray4 where
  "ex_data = \<lparr>channels = 3, height = 1, width = 2, samples = [[[1, 2], [3, 4], [5, 6]]]\<rparr>"

definition ex_gray :: ndarray4 where
  "ex_gray = \<lparr>channels = 1, height = 1, width = 2, samples = [[[1, 2]], [[3, 4]]]\<rparr>"

definition ex_dataset :: ndarray4 where
  "ex_dataset = \<lparr>channels = 3, height = 1, width = 2,
                 samples = [[[0, 0], [0, 0], [0, 0]],
                            [[0, 2], [0, 0], [0, 0]],
                            [[0, 4], [0, 0], [0, 0]]]\<rparr>"

definition ex_varied :: ndarray4 where
  "ex_varied = \<lparr>channels = 3, height = 1, width = 2,
                samples = [[[0, 2], [0, 0], [0, 0]],
                           [[2, 0], [0, 0], [0, 0]]]\<rparr>"

definition ex_predict :: predict_fn where
  "ex_predict batch labels =
     (map (map (map (\<lambda>v. 2 * v))) batch, replicate (length batch) 7,
      replicate (length batch) (1 / 2))"

definition ex_collaborators :: collaborators where
  "ex_collaborators =
     \<lparr>images_transform_pipeline =
        (\<lambda>inputs resize_to crop_to.
           if inputs = [''dataset''] then ([], ex_dataset)
           else if inputs = [''varied''] then ([], ex_varied)
           else if inputs = [''gray''] then ([], ex_gray)
           else ([[[[0, 0, 0], [0, 0, 0]]]], ex_data)),
      build_predict_fn = (\<lambda>gradient_of. ex_predict),
      multivariate_normal = (\<lambda>k mean cov. map (\<lambda>m. m + real k + 1) mean),
      preprocess_save_path =
        (\<lambda>save_path bsz. case save_path of None \<Rightarrow> replicate bsz None | Some p \<Rightarrow> [Some p]),
      explanation_to_vis = (\<lambda>img explanation. img),
      nonzero_0d_raises = False\<rparr>"

definition ex_state :: state where
  "ex_state =
     \<lparr>predicted_label = None, predicted_proba = None, labels_attr = None, noise_draws = [],
      predict_calls = [], shown = [], saved = [], files = Map.empty\<rparr>"

definition ex_corr :: "label \<Rightarrow> matrix option" where
  "ex_corr = [7 \<mapsto> [[Finite 1, Finite 0], [Finite 0, Finite 1]]]"

section \<open>Chunk coverage\<close>

lemma py_slice_nat:
  "a \<le> b \<Longrightarrow> py_slice xs (int a) (int b) = take (b - a) (drop a xs)"
  by (cases "a \<le> length xs") (simp_all add: py_slice_def slice_index_def Let_def min_def)

lemma py_slice_from_nat: "py_slice_from xs (int a) = drop a xs"
  by (simp add: py_slice_from_def slice_index_def min_def)

lemma concat_slices:
  "concat (map (\<lambda>i. take c (drop (i * c) xs)) [0..<m]) = take (m * c) xs"
proof (induction m)
  case 0
  then show ?case by simp
next
  case (Suc m)
  have "take (m * c) xs @ take c (drop (m * c) xs) = take (m * c + c) xs"
    by (simp add: take_add)
  with Suc show ?case by (simp add: add.commute)
qed

lemma chunk_batches_nat:
  assumes "0 \<le> c"
  shows "map (\<lambda>i. py_slice xs (int i * c) ((int i + 1) * c)) [0..<m]
         = map (\<lambda>i. take (nat c) (drop (i * nat c) xs)) [0..<m]"
proof (rule map_cong[OF refl])
  fix i
  obtain k where c: "c = int k" using assms by (metis nonneg_int_cases)
  have "py_slice xs (int (i * k)) (int ((i + 1) * k)) = take ((i + 1) * k - i * k) (drop (i * k) xs)"
    by (rule py_slice_nat) simp
  then show "py_slice xs (int i * c) ((int i + 1) * c) = take (nat c) (drop (i * nat c) xs)"
    by (simp add: c algebra_simps)
qed

lemma chunk_calls_concat:
  assumes "0 \<le> n_samples"
  shows "concat (map fst (chunk_calls xs ls n_samples split)) = xs"
proof (cases "split > 1")
  case False
  then show ?thesis by (simp add: chunk_calls_def)
next
  case True
  define c where "c = n_samples div split"
  have c0: "0 \<le> c" using assms True by (simp add: c_def pos_imp_zdiv_nonneg_iff)
  have last: "py_slice_from xs (c * (split - 1)) = drop (nat (split - 1) * nat c) xs"
  proof -
    have "c * (split - 1) = int (nat (split - 1) * nat c)" using c0 True by simp
    then show ?thesis by (simp only: py_slice_from_nat)
  qed
  have "concat (map fst (chunk_calls xs ls n_samples split))
        = concat (map (\<lambda>i. py_slice xs (int i * c) ((int i + 1) * c)) [0..<nat (split - 1)])
          @ py_slice_from xs (c * (split - 1))"
    using True by (simp add: chunk_calls_def c_def Let_def comp_def)
  also have "\<dots> = take (nat (split - 1) * nat c) xs @ drop (nat (split - 1) * nat c) xs"
    by (simp only: chunk_batches_nat[OF c0] concat_slices last)
  finally show ?thesis by simp
qed

lemma chunk_batch_length:
  assumes "0 \<le> c" "(int i + 1) * c \<le> int (length xs)"
  shows "length (py_slice xs (int i * c) ((int i + 1) * c)) = nat c"
proof -
  obtain k where c: "c = int k" using assms(1) by (metis nonneg_int_cases)
  have le: "(i + 1) * k \<le> length xs" using assms(2) unfolding c
    by (metis of_nat_1 of_nat_add of_nat_le_iff of_nat_mult)
  have "py_slice xs (int (i * k)) (int ((i + 1) * k)) = take ((i + 1) * k - i * k) (drop (i * k) xs)"
    by (rule py_slice_nat) simp
  then have "py_slice xs (int i * c) ((int i + 1) * c) = take k (drop (i * k) xs)"
    by (simp add: c algebra_simps)
  then show ?thesis using le by (simp add: c)
qed

lemma chunk_bound:
  fixes n split :: int
  assumes "0 \<le> n" "1 < split"
  shows "0 \<le> n div split" "(n div split) * (split - 1) \<le> n"
proof -
  have "0 < split" using assms(2) by simp
  then show c0: "0 \<le> n div split" using assms(1) by (simp add: pos_imp_zdiv_nonneg_iff)
  have "split * (n div split) + n mod split = n" by (rule mult_div_mod_eq)
  moreover have "0 \<le> n mod split" using assms(2) by (simp add: pos_mod_sign)
  ultimately have "(n div split) * split \<le> n" by (simp only: mult.commute)
  moreover have "(n div split) * (split - 1) \<le> (n div split) * split"
    using c0 by (simp add: mult_left_mono)
  ultimately show "(n div split) * (split - 1) \<le> n" by linarith
qed

lemma chunk_calls_lengths:
  assumes "0 \<le> n" "1 < split" "length xs = nat n"
  shows "map (\<lambda>c. int (length (fst c))) (chunk_calls xs ls n split)
         = replicate (nat (split - 1)) (n div split) @ [n - (n div split) * (split - 1)]"
proof -
  define c where "c = n div split"
  have c0: "0 \<le> c" and cb: "c * (split - 1) \<le> n"
    using chunk_bound[OF assms(1,2)] by (simp_all add: c_def)
  have each: "int (length (py_slice xs (int i * c) ((int i + 1) * c))) = c"
    if "i < nat (split - 1)" for i
  proof -
    have "int i + 1 \<le> split - 1" using that by linarith
    then have "(int i + 1) * c \<le> (split - 1) * c" using c0 by (simp add: mult_right_mono)
    then have "(int i + 1) * c \<le> int (length xs)" using cb assms(1,3) by (simp add: mult.commute)
    from chunk_batch_length[OF c0 this] show ?thesis using c0 by simp
  qed
  have first: "map (\<lambda>i. int (length (py_slice xs (int i * c) ((int i + 1) * c)))) [0..<nat (split - 1)]
               = replicate (nat (split - 1)) c"
    by (rule nth_equalityI) (simp_all add: each)
  have "c * (split - 1) = int (nat (split - 1) * nat c)" using c0 assms(2) by simp
  then have "py_slice_from xs (c * (split - 1)) = drop (nat (split - 1) * nat c) xs"
    by (simp only: py_slice_from_nat)
  moreover have "nat (split - 1) * nat c = nat (c * (split - 1))"
    using c0 by (simp add: nat_mult_distrib mult.commute)
  ultimately have last: "int (length (py_slice_from xs (c * (split - 1)))) = n - c * (split - 1)"
    using cb c0 assms by simp
  show ?thesis
    using assms(2) first last by (simp add: chunk_calls_def Let_def comp_def flip: c_def)
qed

lemma sum_list_int: "(\<Sum>x\<leftarrow>xs. int (f x)) = int (\<Sum>x\<leftarrow>xs. f x)"
  by (induction xs) simp_all

text \<open>
  Claim C2. For \<open>n_samples \<ge> 1\<close> and \<open>split \<ge> 1\<close>, the batches that the chunked
  gradient stage passes to \<^verbatim>\<open>predict_fn\<close> partition the \<open>n_samples\<close> perturbed samples:
  concatenated in call order they are exactly \<^verbatim>\<open>data_noised\<close> (every position once,
  none skipped, order kept); their sizes are \<open>n_samples div split\<close> for the first
  \<open>split - 1\<close> chunks and the remainder for the last; and the sizes sum to \<open>n_samples\<close>.
\<close>

theorem chunk_coverage:
  assumes "1 \<le> n_samples" "1 \<le> split" "length data_noised = nat n_samples"
  shows "concat (map fst (chunk_calls data_noised labels n_samples split)) = data_noised \<and>
         map (\<lambda>c. int (length (fst c))) (chunk_calls data_noised labels n_samples split)
           = (if split > 1
              then replicate (nat (split - 1)) (n_samples div split)
                   @ [n_samples - (n_samples div split) * (split - 1)]
              else [n_samples]) \<and>
         (\<Sum>c\<leftarrow>chunk_calls data_noised labels n_samples split. int (length (fst c))) = n_samples"
proof -
  have n0: "0 \<le> n_samples" using assms(1) by simp
  have cover: "concat (map fst (chunk_calls data_noised labels n_samples split)) = data_noised"
    by (rule chunk_calls_concat[OF n0])
  have sizes: "map (\<lambda>c. int (length (fst c))) (chunk_calls data_noised labels n_samples split)
           = (if split > 1
              then replicate (nat (split - 1)) (n_samples div split)
                   @ [n_samples - (n_samples div split) * (split - 1)]
              else [n_samples])"
  proof (cases "split > 1")
    case True
    then show ?thesis using chunk_calls_lengths[OF n0 _ assms(3), of split labels] by simp
  next
    case False
    then show ?thesis using assms by (simp add: chunk_calls_def)
  qed
  have "(\<Sum>c\<leftarrow>chunk_calls data_noised labels n_samples split. int (length (fst c)))
        = int (length (concat (map fst (chunk_calls data_noised labels n_samples split))))"
    by (simp add: length_concat comp_def sum_list_int)
  also have "\<dots> = n_samples" using cover assms by simp
  finally show ?thesis using cover sizes by simp
qed

text \<open>The case \<open>n_samples = 50\<close>, \<open>split = 3\<close>: chunks of sizes 16, 16 and 18.\<close>

theorem chunk_coverage_witness:
  "(1::int) \<le> 50 \<and> (1::int) \<le> 3 \<and> length [0..<50] = nat 50 \<and>
   concat (map fst (chunk_calls [0..<50] [7] 50 3)) = [0..<50] \<and>
   map (\<lambda>c. int (length (fst c))) (chunk_calls [0..<50] [7] 50 3) = [16, 16, 18] \<and>
   (\<Sum>c\<leftarrow>chunk_calls [0..<50] [7] 50 3. int (length (fst c))) = 50"
  using chunk_coverage[of 50 3 "[0..<50]" "[7]"] by (simp add: numeral_2_eq_2)

section \<open>interpret as written never reaches its pipeline\<close>

text \<open>
  Claim C3. No invocation of \<^verbatim>\<open>interpret\<close> reaches noise sampling, gradient computation
  or the return statement. The module does not load, whatever \<^verbatim>\<open>torchvision.models\<close>
  exports, since the parameter list puts \<^verbatim>\<open>dataset\<close> after parameters with defaults;
  \<^verbatim>\<open>data\<close> is not a parameter and \<^verbatim>\<open>save_path_corr_mat\<close> is bound nowhere; whatever
  the local \<^verbatim>\<open>data\<close> held, the body would stop with an error at the unbound
  \<^verbatim>\<open>save_path_corr_mat\<close> at the latest; and a call stops at line 93 with the state it
  was given: no draw, no call of \<^verbatim>\<open>predict_fn\<close>, no attribute written.
\<close>

theorem interpret_never_runs:
  "load_module torchvision_models
     = Inl (SyntaxError ''non-default argument follows default argument'') \<and>
   ''data'' \<notin> set (map fst interpret_params) \<and>
   ''save_path_corr_mat'' \<notin> set (map fst interpret_params) \<union> set module_globals \<and>
   (\<forall>data_local. \<exists>e. interpret_frame C data_local None inputs labels noise_amount n_samples split
        gradient_of resize_to crop_to visual save_path s = (Inl e, s)) \<and>
   interpret_call C inputs labels dataset dataset_labels noise_amount n_samples split
     gradient_of resize_to crop_to visual save_path s = (Inl (UnboundLocalError ''data''), s)"
proof -
  have "\<not> params_ok interpret_params" by (simp add: interpret_params_def)
  then have 1: "load_module torchvision_models
      = Inl (SyntaxError ''non-default argument follows default argument'')"
    by (simp add: load_module_def)
  have 2: "''data'' \<notin> set (map fst interpret_params)" by (simp add: interpret_params_def)
  have 3: "''save_path_corr_mat'' \<notin> set (map fst interpret_params) \<union> set module_globals"
    by (simp add: interpret_params_def module_globals_def)
  have 4: "\<exists>e. interpret_frame C data_local None inputs labels noise_amount n_samples split
        gradient_of resize_to crop_to visual save_path s = (Inl e, s)" for data_local
    by (cases data_local) (simp_all add: interpret_frame_def)
  have 5: "interpret_call C inputs labels dataset dataset_labels noise_amount n_samples split
     gradient_of resize_to crop_to visual save_path s = (Inl (UnboundLocalError ''data''), s)"
    by (simp add: interpret_call_def interpret_frame_def)
  from 1 2 3 4 5 show ?thesis by blast
qed

section \<open>The estimator refuses a tensor without 3 channels\<close>

text \<open>
  Claim C9. When the tensor that the reader pipeline returns has fewer than 3 channels,
  \<^verbatim>\<open>init_corr_mat\<close> fails with the assertion error of line 233, the shape error of the
  estimator, and leaves the state as it was: no matrix is computed and none is saved.
\<close>

theorem channel_count_assertion:
  assumes "images_transform_pipeline C inputs resize_to crop_to = (imgs, data)"
    and "channels data < 3"
  shows "init_corr_mat C inputs labels specific_classes resize_to crop_to save_path visual s
         = (Inl (AssertionError ''Expected 3 channels (RGB), but got different shape!''), s)"
  using assms by (simp add: init_corr_mat_def)

theorem channel_count_assertion_witness:
  "images_transform_pipeline ex_collaborators [''gray''] 64 None = ([], ex_gray) \<and>
   channels ex_gray < 3 \<and>
   init_corr_mat ex_collaborators [''gray''] (NdArray [0, 0]) None 64 None (Some ''corr'') False
     ex_state
     = (Inl (AssertionError ''Expected 3 channels (RGB), but got different shape!''), ex_state)"
proof -
  have p: "images_transform_pipeline ex_collaborators [''gray''] 64 None = ([], ex_gray)"
    by (simp add: ex_collaborators_def)
  have c: "channels ex_gray < 3" by (simp add: ex_gray_def)
  from channel_count_assertion[OF p c] p c show ?thesis by simp
qed

section \<open>A label without a correlation matrix\<close>

text \<open>
  The lookup of line 116 in the body from line 102: when the resolved label (the supplied
  one, or the predicted one when none is supplied) has no entry in the mapping of
  correlation matrices, the body fails with the key error. The state it leaves holds the
  first call of \<^verbatim>\<open>predict_fn\<close> and the two predicted attributes and nothing else: no noise
  was drawn, and no other covariance was used in place of the missing one.
\<close>

theorem missing_label_fails:
  assumes "images_transform_pipeline C inputs resize_to crop_to = (imgs, data)"
    and "build_predict_fn C gradient_of (samples data) labels = (grads, pl, pp)"
    and "(case labels of None \<Rightarrow> pl | Some ls \<Rightarrow> ls) = [l]"
    and "correlation_matrices l = None"
  shows "interpret_core C inputs labels correlation_matrices noise_amount n_samples split
           gradient_of resize_to crop_to visual save_path s
         = (Inl (KeyError l),
            s\<lparr>predicted_label := Some pl, predicted_proba := Some pp,
              predict_calls := predict_calls s @ [(samples data, labels)]\<rparr>)"
  using assms by (simp add: interpret_core_def interpret_avg_def Let_def)

theorem missing_label_fails_witness:
  "images_transform_pipeline ex_collaborators [''x''] 224 None
     = ([[[[0, 0, 0], [0, 0, 0]]]], ex_data) \<and>
   build_predict_fn ex_collaborators ''probability'' (samples ex_data) (Some [3])
     = ([[[2, 4], [6, 8], [10, 12]]], [7], [1 / 2]) \<and>
   (case Some [3] of None \<Rightarrow> [7] | Some ls \<Rightarrow> ls) = [3::int] \<and>
   ex_corr 3 = None \<and>
   fst (interpret_core ex_collaborators [''x''] (Some [3]) ex_corr (1 / 10) 50 2 ''probability''
          224 None True None ex_state) = Inl (KeyError 3) \<and>
   noise_draws (snd (interpret_core ex_collaborators [''x''] (Some [3]) ex_corr (1 / 10) 50 2
          ''probability'' 224 None True None ex_state)) = []"
proof -
  have p: "images_transform_pipeline ex_collaborators [''x''] 224 None
      = ([[[[0, 0, 0], [0, 0, 0]]]], ex_data)"
    by (simp add: ex_collaborators_def)
  have g: "build_predict_fn ex_collaborators ''probability'' (samples ex_data) (Some [3])
     = ([[[2, 4], [6, 8], [10, 12]]], [7], [1 / 2])"
    by (simp add: ex_collaborators_def ex_predict_def ex_data_def)
  have r: "(case Some [3] of None \<Rightarrow> [7] | Some ls \<Rightarrow> ls) = [3::int]" by simp
  have c: "ex_corr 3 = None" by (simp add: ex_corr_def)
  from missing_label_fails[where correlation_matrices = ex_corr and l = 3, OF p g r c] p g r c
  show ?thesis by (simp add: ex_state_def)
qed

text \<open>
  Claim C4 asks that a call of \<^verbatim>\<open>interpret\<close> whose label has no correlation matrix fail
  with a missing-key error. The method as it is written does not get as far as line 116:
  a call with the label 3, for which the stored mapping has no entry, stops at line 93
  with an unbound-local error and the state it was given, not with a key error.
\<close>

theorem interpret_call_missing_label:
  "ex_corr 3 = None \<and>
   interpret_call ex_collaborators [''x''] (Some [3]) [''dataset''] (Some [0, 0, 0]) (1 / 10) 50 2
     ''probability'' 224 None True None (ex_state\<lparr>files := [''corr.npy'' \<mapsto> ex_corr]\<rparr>)
   = (Inl (UnboundLocalError ''data''), ex_state\<lparr>files := [''corr.npy'' \<mapsto> ex_corr]\<rparr>) \<and>
   fst (interpret_call ex_collaborators [''x''] (Some [3]) [''dataset''] (Some [0, 0, 0]) (1 / 10)
          50 2 ''probability'' 224 None True None
          (ex_state\<lparr>files := [''corr.npy'' \<mapsto> ex_corr]\<rparr>)) \<noteq> Inl (KeyError 3)"
  by (simp add: interpret_call_def interpret_frame_def ex_corr_def)

section \<open>Averaging does not depend on the chunks\<close>

lemma map2_replicate: "map2 f xs (replicate (length xs) y) = map (\<lambda>x. f x y) xs"
  by (simp add: zip_replicate2)

lemma noise_loop_length:
  "noise_loop C data cov k s = (Inr dn, s') \<Longrightarrow>
   length dn = k \<and> list_all (\<lambda>b. length b = length (samples data)) dn"
proof (induction k arbitrary: s dn s')
  case 0
  then show ?case by simp
next
  case (Suc k)
  then show ?case
    by (auto simp: Let_def np_add_broadcast_def
          split: if_splits option.splits prod.splits sum.splits)
qed

lemma noised_data_length:
  assumes "noised_data C data corr_mat noise_amount n_samples s = (Inr dn, s')"
  shows "1 \<le> n_samples \<and> length dn = nat n_samples * length (samples data)"
proof -
  obtain dl where loop: "noise_loop C data (map (map (fmul noise_amount)) corr_mat) (nat n_samples) s = (Inr dl, s')"
    and ne: "dl \<noteq> []" and dn: "dn = concat dl"
    using assms by (auto simp: noised_data_def Let_def split: prod.splits sum.splits if_splits)
  from noise_loop_length[OF loop] have len: "length dl = nat n_samples"
    and each: "list_all (\<lambda>b. length b = length (samples data)) dl" by simp_all
  from len ne have "1 \<le> n_samples" by (cases "1 \<le> n_samples") auto
  moreover have "length (concat dl) = length dl * length (samples data)"
    using each by (induction dl) simp_all
  ultimately show ?thesis using len dn by simp
qed

lemma chunk_calls_labels:
  assumes "0 \<le> n" "length dn = nat n"
  shows "list_all (\<lambda>c. snd c = replicate (length (fst c)) l) (chunk_calls dn [l] n split)"
proof (cases "split > 1")
  case False
  then show ?thesis using assms by (simp add: chunk_calls_def np_repeat_def)
next
  case True
  define c where "c = n div split"
  have c0: "0 \<le> c" and cb: "c * (split - 1) \<le> n"
    using chunk_bound[OF assms(1) True] by (simp_all add: c_def)
  have each: "length (py_slice dn (int i * c) ((int i + 1) * c)) = nat c"
    if "i < nat (split - 1)" for i
  proof -
    have "int i + 1 \<le> split - 1" using that by linarith
    then have "(int i + 1) * c \<le> (split - 1) * c" using c0 by (simp add: mult_right_mono)
    then have "(int i + 1) * c \<le> int (length dn)" using cb assms by (simp add: mult.commute)
    from chunk_batch_length[OF c0 this] show ?thesis .
  qed
  have "c * (split - 1) = int (nat (split - 1) * nat c)" using c0 True by simp
  then have "py_slice_from dn (c * (split - 1)) = drop (nat (split - 1) * nat c) dn"
    by (simp only: py_slice_from_nat)
  moreover have "nat (split - 1) * nat c = nat (c * (split - 1))"
    using c0 by (simp add: nat_mult_distrib mult.commute)
  moreover have "0 \<le> c * (split - 1)" using c0 True by simp
  ultimately have last: "length (py_slice_from dn (c * (split - 1))) = nat (n - c * (split - 1))"
    using assms by (simp add: nat_diff_distrib')
  show ?thesis
    using True each last
    by (simp add: chunk_calls_def Let_def np_repeat_def list_all_iff flip: c_def)
qed

lemma per_sample_concat:
  assumes per: "\<And>b ls. length ls = length b \<Longrightarrow> fst (predict_fn b (Some ls)) = map2 grad b ls"
    and "list_all (\<lambda>c. snd c = replicate (length (fst c)) l) calls"
  shows "concat (map (\<lambda>(b, ls). fst (predict_fn b (Some ls))) calls)
         = map (\<lambda>x. grad x l) (concat (map fst calls))"
  using assms(2)
proof (induction calls)
  case Nil
  then show ?case by simp
next
  case (Cons c calls)
  obtain b ls where c: "c = (b, ls)" by (cases c)
  with Cons.prems have ls: "ls = replicate (length b) l" by simp
  have "fst (predict_fn b (Some ls)) = map (\<lambda>x. grad x l) b"
    using per[of ls b] by (simp add: ls map2_replicate)
  with Cons c show ?case by simp
qed

lemma chunked_gradients_per_sample:
  assumes per: "\<And>b ls. length ls = length b \<Longrightarrow> fst (predict_fn b (Some ls)) = map2 grad b ls"
    and "0 \<le> n" "length dn = nat n"
  shows "fst (chunked_gradients predict_fn dn [l] n split s) = map (\<lambda>x. grad x l) dn"
  using per_sample_concat[of predict_fn grad l "chunk_calls dn [l] n split", OF per chunk_calls_labels[OF assms(2,3)]]
        chunk_calls_concat[OF assms(2), of dn "[l]" split]
  by (simp add: chunked_gradients_def Let_def)

lemma map2_ignore_snd: "length ys = length xs \<Longrightarrow> map2 (\<lambda>x y. f x) xs ys = map f xs"
  by (induction xs ys rule: list_induct2') simp_all

lemmas ex_simps = ex_collaborators_def ex_predict_def ex_data_def ex_corr_def ex_state_def
      noised_data_def chunked_gradients_def chunk_calls_def np_repeat_def np_mean_axis0_def
      np_add_broadcast_def square_def finite_matrix_def fmul_def fdiv_def Let_def
      eval_nat_numeral upt_rec

lemma interpret_avg_any_split:
  assumes pipe: "images_transform_pipeline C inputs resize_to crop_to = (imgs, data)"
    and single: "length (samples data) = 1"
    and per: "\<And>b ls. length ls = length b \<Longrightarrow>
                fst (build_predict_fn C gradient_of b (Some ls)) = map2 grad b ls"
  shows "fst (interpret_avg C inputs labels correlation_matrices noise_amount n_samples split
                gradient_of resize_to crop_to s)
         = fst (interpret_avg C inputs labels correlation_matrices noise_amount n_samples 1
                gradient_of resize_to crop_to s)"
proof -
  obtain g0 pl pp where pred: "build_predict_fn C gradient_of (samples data) labels = (g0, pl, pp)"
    by (cases "build_predict_fn C gradient_of (samples data) labels") auto
  define l1 where "l1 = (case labels of None \<Rightarrow> pl | Some l \<Rightarrow> l)"
  define s1 where "s1 = s\<lparr>predicted_label := Some pl, predicted_proba := Some pp,
                 predict_calls := predict_calls s @ [(samples data, labels)]\<rparr>"
  show ?thesis
  proof (cases "length l1 = 1")
    case False
    then show ?thesis using pipe pred by (simp add: interpret_avg_def Let_def l1_def)
  next
    case True
    then obtain l where l: "l1 = [l]" by (cases l1) auto
    show ?thesis
    proof (cases "correlation_matrices l")
      case None
      then show ?thesis using pipe pred l by (simp add: interpret_avg_def Let_def l1_def)
    next
      case (Some corr_mat)
      obtain r s2 where nd: "noised_data C data corr_mat noise_amount n_samples s1 = (r, s2)"
        by (cases "noised_data C data corr_mat noise_amount n_samples s1") auto
      show ?thesis
      proof (cases r)
        case (Inl e)
        then show ?thesis using pipe pred l Some nd
          by (simp add: interpret_avg_def Let_def l1_def s1_def)
      next
        case (Inr dn)
        with nd noised_data_length[of C data corr_mat noise_amount n_samples s1 dn s2] single
        have n: "0 \<le> n_samples" and len: "length dn = nat n_samples" by simp_all
        have eq: "fst (chunked_gradients (build_predict_fn C gradient_of) dn [l] n_samples k s2)
                  = map (\<lambda>x. grad x l) dn" for k
          by (rule chunked_gradients_per_sample[OF per n len])
        show ?thesis using pipe pred l Some nd Inr eq[of split] eq[of 1]
          by (auto simp: interpret_avg_def Let_def l1_def s1_def split: prod.splits)
      qed
    qed
  qed
qed

lemma interpret_core_plain:
  "fst (interpret_core C inputs labels correlation_matrices noise_amount n_samples split
          gradient_of resize_to crop_to False None s)
   = (case fst (interpret_avg C inputs labels correlation_matrices noise_amount n_samples split
                  gradient_of resize_to crop_to s) of
        Inl e \<Rightarrow> Inl e
      | Inr (imgs, labels1, avg_gradients) \<Rightarrow> Inr avg_gradients)"
  by (simp add: interpret_core_def present_def split: prod.splits sum.splits)

text \<open>
  Claim C1. For a fixed input, label, mapping of correlation matrices, noise amount,
  number of samples and state of the random generator (hence fixed noise draws), the
  explanation map does not depend on \<^verbatim>\<open>split\<close>: the pipeline up to line 172 gives, for
  any \<^verbatim>\<open>split\<close>, the averaged-gradient map it gives for \<^verbatim>\<open>split = 1\<close>, and so does the
  whole body for the value it returns when no presentation is requested. The input is a
  single example, and the gradient collaborator keeps its contract: the gradient batch
  holds, sample by sample, the gradient of each sample for its label. The chunks may have
  different sizes; the gradients are concatenated in sample order and averaged once.
\<close>

theorem averaging_equivalence:
  assumes pipe: "images_transform_pipeline C inputs resize_to crop_to = (imgs, data)"
    and single: "length (samples data) = 1"
    and per: "\<And>b ls. length ls = length b \<Longrightarrow>
                fst (build_predict_fn C gradient_of b (Some ls)) = map2 grad b ls"
  shows "fst (interpret_avg C inputs labels correlation_matrices noise_amount n_samples split
                gradient_of resize_to crop_to s)
         = fst (interpret_avg C inputs labels correlation_matrices noise_amount n_samples 1
                gradient_of resize_to crop_to s) \<and>
         fst (interpret_core C inputs labels correlation_matrices noise_amount n_samples split
                gradient_of resize_to crop_to False None s)
         = fst (interpret_core C inputs labels correlation_matrices noise_amount n_samples 1
                gradient_of resize_to crop_to False None s)"
proof -
  have avg: "fst (interpret_avg C inputs labels correlation_matrices noise_amount n_samples split
                gradient_of resize_to crop_to s)
         = fst (interpret_avg C inputs labels correlation_matrices noise_amount n_samples 1
                gradient_of resize_to crop_to s)"
    by (rule interpret_avg_any_split[OF pipe single per])
  then show ?thesis by (simp add: interpret_core_plain)
qed

text \<open>
  Five samples in three chunks of sizes 1, 1 and 3, against one chunk of five: the same
  averaged map, and the same returned map.
\<close>

theorem averaging_equivalence_witness:
  "images_transform_pipeline ex_collaborators [''x''] 224 None
     = ([[[[0, 0, 0], [0, 0, 0]]]], ex_data) \<and>
   length (samples ex_data) = 1 \<and>
   fst (interpret_avg ex_collaborators [''x''] None ex_corr (1 / 10) 5 3 ''probability'' 224 None
          ex_state)
     = Inr ([[[[0, 0, 0], [0, 0, 0]]]], [7],
            [[[Finite 8, Finite 10], [Finite 12, Finite 14], [Finite 16, Finite 18]]]) \<and>
   fst (interpret_avg ex_collaborators [''x''] None ex_corr (1 / 10) 5 1 ''probability'' 224 None
          ex_state)
     = Inr ([[[[0, 0, 0], [0, 0, 0]]]], [7],
            [[[Finite 8, Finite 10], [Finite 12, Finite 14], [Finite 16, Finite 18]]]) \<and>
   fst (interpret_core ex_collaborators [''x''] None ex_corr (1 / 10) 5 3 ''probability'' 224 None
          False None ex_state)
     = Inr [[[Finite 8, Finite 10], [Finite 12, Finite 14], [Finite 16, Finite 18]]] \<and>
   fst (interpret_core ex_collaborators [''x''] None ex_corr (1 / 10) 5 1 ''probability'' 224 None
          False None ex_state)
     = Inr [[[Finite 8, Finite 10], [Finite 12, Finite 14], [Finite 16, Finite 18]]]"
proof -
  have p: "images_transform_pipeline ex_collaborators [''x''] 224 None
      = ([[[[0, 0, 0], [0, 0, 0]]]], ex_data)"
    by (simp add: ex_collaborators_def)
  have single: "length (samples ex_data) = 1" by (simp add: ex_data_def)
  have per: "fst (build_predict_fn ex_collaborators ''probability'' b (Some ls))
             = map2 (\<lambda>x l. map (map (\<lambda>v. 2 * v)) x) b ls" if "length ls = length b" for b ls
    using that by (simp add: ex_collaborators_def ex_predict_def map2_ignore_snd)
  have one: "fst (interpret_avg ex_collaborators [''x''] None ex_corr (1 / 10) 5 1 ''probability''
                    224 None ex_state)
     = Inr ([[[[0, 0, 0], [0, 0, 0]]]], [7],
            [[[Finite 8, Finite 10], [Finite 12, Finite 14], [Finite 16, Finite 18]]])"
    by (simp add: interpret_avg_def ex_simps)
  have core: "fst (interpret_core ex_collaborators [''x''] None ex_corr (1 / 10) 5 1
                    ''probability'' 224 None False None ex_state)
     = Inr [[[Finite 8, Finite 10], [Finite 12, Finite 14], [Finite 16, Finite 18]]]"
    by (simp add: interpret_core_plain one)
  from averaging_equivalence[OF p single per, of None ex_corr "1 / 10" 5 3 ex_state]
    one core p single
  show ?thesis by simp
qed

section \<open>Presentation does not change the returned map\<close>

text \<open>
  Claim C10. When the pipeline completes with a map, whatever \<^verbatim>\<open>visual\<close> and
  \<^verbatim>\<open>save_path\<close> are, that map is the averaged-gradient map of line 172, and it is the
  map returned when no presentation is requested.
\<close>

theorem presentation_frame:
  assumes "interpret_core C inputs labels correlation_matrices noise_amount n_samples split
             gradient_of resize_to crop_to visual save_path s = (Inr m, s')"
  shows "(\<exists>imgs labels1. fst (interpret_avg C inputs labels correlation_matrices noise_amount
             n_samples split gradient_of resize_to crop_to s) = Inr (imgs, labels1, m)) \<and>
         fst (interpret_core C inputs labels correlation_matrices noise_amount n_samples split
             gradient_of resize_to crop_to False None s) = Inr m"
  using assms
  by (auto simp: interpret_core_def present_def split: prod.splits sum.splits)

text \<open>A completing call with \<^verbatim>\<open>visual\<close> on and a save path: one image shown, one saved.\<close>

theorem presentation_frame_witness:
  "interpret_core ex_collaborators [''x''] None ex_corr (1 / 10) 5 2 ''probability'' 224 None
     True (Some ''out.png'') ex_state
   = (Inr [[[Finite 8, Finite 10], [Finite 12, Finite 14], [Finite 16, Finite 18]]],
      snd (interpret_core ex_collaborators [''x''] None ex_corr (1 / 10) 5 2 ''probability'' 224
             None True (Some ''out.png'') ex_state)) \<and>
   shown (snd (interpret_core ex_collaborators [''x''] None ex_corr (1 / 10) 5 2 ''probability''
             224 None True (Some ''out.png'') ex_state)) = [[[[0, 0, 0], [0, 0, 0]]]] \<and>
   saved (snd (interpret_core ex_collaborators [''x''] None ex_corr (1 / 10) 5 2 ''probability''
             224 None True (Some ''out.png'') ex_state)) = [(''out.png'', [[[0, 0, 0], [0, 0, 0]]])] \<and>
   fst (interpret_core ex_collaborators [''x''] None ex_corr (1 / 10) 5 2 ''probability'' 224 None
     False None ex_state)
   = Inr [[[Finite 8, Finite 10], [Finite 12, Finite 14], [Finite 16, Finite 18]]]"
proof -
  have run: "fst (interpret_core ex_collaborators [''x''] None ex_corr (1 / 10) 5 2 ''probability''
       224 None True (Some ''out.png'') ex_state)
     = Inr [[[Finite 8, Finite 10], [Finite 12, Finite 14], [Finite 16, Finite 18]]]"
    by (simp add: interpret_core_def interpret_avg_def present_def stale_i_def py_get_def
        py_slice_def py_slice_from_def slice_index_def ex_simps)
  have sh: "shown (snd (interpret_core ex_collaborators [''x''] None ex_corr (1 / 10) 5 2
       ''probability'' 224 None True (Some ''out.png'') ex_state)) = [[[[0, 0, 0], [0, 0, 0]]]]"
    by (simp add: interpret_core_def interpret_avg_def present_def stale_i_def py_get_def
        py_slice_def py_slice_from_def slice_index_def ex_simps)
  have sv: "saved (snd (interpret_core ex_collaborators [''x''] None ex_corr (1 / 10) 5 2
       ''probability'' 224 None True (Some ''out.png'') ex_state))
       = [(''out.png'', [[[0, 0, 0], [0, 0, 0]]])]"
    by (simp add: interpret_core_def interpret_avg_def present_def stale_i_def py_get_def
        py_slice_def py_slice_from_def slice_index_def ex_simps)
  have eq: "interpret_core ex_collaborators [''x''] None ex_corr (1 / 10) 5 2 ''probability'' 224
     None True (Some ''out.png'') ex_state
   = (Inr [[[Finite 8, Finite 10], [Finite 12, Finite 14], [Finite 16, Finite 18]]],
      snd (interpret_core ex_collaborators [''x''] None ex_corr (1 / 10) 5 2 ''probability'' 224
             None True (Some ''out.png'') ex_state))"
    using run by (simp add: prod_eq_iff)
  from presentation_frame[OF eq] eq sh sv show ?thesis by simp
qed

section \<open>The noise of a perturbed copy\<close>

lemma add_noise_channels:
  "length smp = 3 \<Longrightarrow> map2 (map2 (+)) smp (replicate 3 nz) = map (\<lambda>ch. map2 (+) ch nz) smp"
  by (simp add: zip_replicate2)

lemma finite_matrix_scale: "finite_matrix M \<Longrightarrow> finite_matrix (map (map (fmul k)) M)"
  by (auto simp: finite_matrix_def list_all_iff fmul_def split: npfloat.splits)

lemma noise_loop_result:
  assumes "channels data = 3" "wf_data data" "square cov (height data * width data)"
    and fin: "finite_matrix cov"
    and len: "\<And>k. length (multivariate_normal C k (replicate (height data * width data) 0) cov)
                = height data * width data"
  shows "noise_loop C data cov n s
         = (Inr (map (\<lambda>k. map (\<lambda>smp. map (\<lambda>ch. map2 (+) ch
                       (multivariate_normal C (length (noise_draws s) + k)
                          (replicate (height data * width data) 0) cov)) smp) (samples data))
                   [0..<n]),
            s\<lparr>noise_draws := noise_draws s
                  @ replicate n (replicate (height data * width data) 0, cov)\<rparr>)"
proof (induction n arbitrary: s)
  case 0
  then show ?case by simp
next
  case (Suc n)
  have three: "list_all (\<lambda>smp. length smp = 3) (samples data)"
    using assms(1,2) by (simp add: wf_data_def list_all_iff)
  have add: "np_add_broadcast data (replicate 3 nz)
             = Some (map (\<lambda>smp. map (\<lambda>ch. map2 (+) ch nz) smp) (samples data))" for nz
    using assms(1) three
    by (simp add: np_add_broadcast_def list_all_iff add_noise_channels)
  have upt: "[0..<Suc n] = 0 # map Suc [0..<n]"
    by (simp add: upt_conv_Cons map_Suc_upt del: upt_Suc)
  show ?case
    unfolding upt
    using assms(3) fin len add Suc.IH
    by (simp add: Let_def comp_def del: upt_Suc)
qed

text \<open>
  The noise stage of lines 117-137, for a 3-channel input and a correlation matrix of size
  \<open>H * W\<close> with finite entries: it asks the sampler once per perturbed copy, each time for one draw with the zero
  mean of dimension \<open>H * W\<close> and the covariance \<^verbatim>\<open>noise_amount * corr_mat\<close>, and the copy
  is the input with that one draw, laid out on the \<open>(H, W)\<close> grid, added to every
  channel: all channels of a copy carry the same noise field. The copies come in draw
  order. (That successive draws of numpy's sampler are independent and normal is the
  sampler's contract; the sampler returns a vector of the length of the mean.)
\<close>

theorem channel_uniform_noise:
  assumes "channels data = 3" "wf_data data"
    and "square corr_mat (height data * width data)"
    and "finite_matrix corr_mat"
    and "1 \<le> n_samples"
    and "\<And>k. length (multivariate_normal C k (replicate (height data * width data) 0)
                   (map (map (fmul noise_amount)) corr_mat)) = height data * width data"
  shows "noised_data C data corr_mat noise_amount n_samples s
         = (Inr (concat (map (\<lambda>k. map (\<lambda>smp. map (\<lambda>ch. map2 (+) ch
                       (multivariate_normal C (length (noise_draws s) + k)
                          (replicate (height data * width data) 0)
                          (map (map (fmul noise_amount)) corr_mat))) smp) (samples data))
                   [0..<nat n_samples])),
            s\<lparr>noise_draws := noise_draws s
                  @ replicate (nat n_samples)
                      (replicate (height data * width data) 0,
                       map (map (fmul noise_amount)) corr_mat)\<rparr>)"
proof -
  have sq: "square (map (map (fmul noise_amount)) corr_mat) (height data * width data)"
    using assms(3) by (simp add: square_def list_all_iff)
  have fin: "finite_matrix (map (map (fmul noise_amount)) corr_mat)"
    using assms(4) by (rule finite_matrix_scale)
  have "nat n_samples \<noteq> 0" using assms(5) by simp
  then show ?thesis
    using noise_loop_result[OF assms(1,2) sq fin assms(6), of "nat n_samples" s]
    by (simp add: noised_data_def Let_def)
qed

text \<open>Two copies of the example image: the draws \<open>[1, 1]\<close> and \<open>[2, 2]\<close> on each channel.\<close>

theorem channel_uniform_noise_witness:
  "channels ex_data = 3 \<and> wf_data ex_data \<and>
   square [[Finite 1, Finite 0], [Finite 0, Finite 1]] (height ex_data * width ex_data) \<and>
   finite_matrix [[Finite 1, Finite 0], [Finite 0, Finite 1]] \<and>
   (1::int) \<le> 2 \<and>
   noised_data ex_collaborators ex_data [[Finite 1, Finite 0], [Finite 0, Finite 1]] (1 / 10) 2
     ex_state
   = (Inr [[[2, 3], [4, 5], [6, 7]], [[3, 4], [5, 6], [7, 8]]],
      ex_state\<lparr>noise_draws :=
        [([0, 0], [[Finite (1 / 10), Finite 0], [Finite 0, Finite (1 / 10)]]),
         ([0, 0], [[Finite (1 / 10), Finite 0], [Finite 0, Finite (1 / 10)]])]\<rparr>)"
proof -
  have c: "channels ex_data = 3" by (simp add: ex_data_def)
  have w: "wf_data ex_data" by (simp add: ex_data_def wf_data_def)
  have q: "square [[Finite 1, Finite 0], [Finite 0, Finite 1]] (height ex_data * width ex_data)"
    by (simp add: ex_data_def square_def)
  have f: "finite_matrix [[Finite 1, Finite 0], [Finite 0, Finite 1]]"
    by (simp add: finite_matrix_def)
  have n: "(1::int) \<le> 2" by simp
  have l: "length (multivariate_normal ex_collaborators k
                     (replicate (height ex_data * width ex_data) 0)
                     (map (map (fmul (1 / 10))) [[Finite 1, Finite 0], [Finite 0, Finite 1]]))
           = height ex_data * width ex_data" for k
    by (simp add: ex_collaborators_def)
  from channel_uniform_noise[OF c w q f n l, of ex_state] c w q f n
  show ?thesis
    by (simp add: ex_collaborators_def ex_data_def ex_state_def fmul_def eval_nat_numeral upt_rec)
qed

text \<open>
  Claim C7 asks that every call of \<^verbatim>\<open>interpret\<close> form \<^verbatim>\<open>n_samples\<close> perturbed copies,
  each from one draw. The method as it is written does not get as far as the noise stage:
  a call with 50 samples stops at line 93 with an unbound-local error, and neither a draw
  nor a call of \<^verbatim>\<open>predict_fn\<close> has been made.
\<close>

theorem interpret_call_draws_nothing:
  "fst (interpret_call ex_collaborators [''x''] (Some [7]) [''dataset''] (Some [7, 7, 7]) (1 / 10)
          50 2 ''probability'' 224 None False None ex_state) = Inl (UnboundLocalError ''data'') \<and>
   noise_draws (snd (interpret_call ex_collaborators [''x''] (Some [7]) [''dataset'']
          (Some [7, 7, 7]) (1 / 10) 50 2 ''probability'' 224 None False None ex_state)) = [] \<and>
   predict_calls (snd (interpret_call ex_collaborators [''x''] (Some [7]) [''dataset'']
          (Some [7, 7, 7]) (1 / 10) 50 2 ''probability'' 224 None False None ex_state)) = []"
  by (simp add: interpret_call_def interpret_frame_def ex_state_def)

text \<open>
  In the body itself the stage has a second way to stop before any copy is formed: for a
  correlation matrix with a NaN, which the estimator stores for a class with a constant
  pixel, the sampler raises at the first draw.
\<close>

lemma nan_covariance_draws_nothing:
  "noised_data ex_collaborators ex_data [[NaN, NaN], [NaN, Finite (100001 / 100000)]] (1 / 10) 2
     ex_state
   = (Inl (LinAlgError ''SVD did not converge''), ex_state)"
  by (simp add: noised_data_def ex_data_def square_def finite_matrix_def fmul_def
      eval_nat_numeral)

section \<open>Label resolution and the recorded prediction\<close>

lemma noise_loop_state:
  "\<exists>j. snd (noise_loop C data cov n s)
       = s\<lparr>noise_draws := noise_draws s @ replicate j (replicate (height data * width data) 0, cov)\<rparr>"
proof (induction n arbitrary: s)
  case 0
  have "s = s\<lparr>noise_draws := noise_draws s @ replicate 0 (replicate (height data * width data) 0, cov)\<rparr>"
    by simp
  then show ?case by (metis noise_loop.simps(1) snd_conv)
next
  case (Suc n)
  let ?d = "(replicate (height data * width data) 0, cov)"
  let ?s1 = "s\<lparr>noise_draws := noise_draws s @ [?d]\<rparr>"
  have zero: "s = s\<lparr>noise_draws := noise_draws s @ replicate 0 ?d\<rparr>" by simp
  have one: "?s1 = s\<lparr>noise_draws := noise_draws s @ replicate 1 ?d\<rparr>" by simp
  obtain j where j: "snd (noise_loop C data cov n ?s1)
       = ?s1\<lparr>noise_draws := noise_draws ?s1 @ replicate j ?d\<rparr>"
    using Suc.IH by blast
  then have more: "snd (noise_loop C data cov n ?s1)
       = s\<lparr>noise_draws := noise_draws s @ replicate (Suc j) ?d\<rparr>"
    by simp
  have cases3: "snd (noise_loop C data cov (Suc n) s) = s
      \<or> snd (noise_loop C data cov (Suc n) s) = ?s1
      \<or> snd (noise_loop C data cov (Suc n) s) = snd (noise_loop C data cov n ?s1)"
  proof (cases "square cov (height data * width data)")
    case False
    then show ?thesis by simp
  next
    case sq0: True
    show ?thesis
    proof (cases "finite_matrix cov")
      case False
      then show ?thesis using sq0 by simp
    next
      case fin: True
      note sq = sq0 fin
      show ?thesis
      proof (cases "length (multivariate_normal C (length (noise_draws s))
                       (replicate (height data * width data) 0) cov) = height data * width data")
        case False
        then show ?thesis using sq by (simp add: Let_def)
      next
        case len: True
        show ?thesis
        proof (cases "np_add_broadcast data (replicate 3 (multivariate_normal C (length (noise_draws s))
                       (replicate (height data * width data) 0) cov))")
          case None
          then show ?thesis using sq len by (simp add: Let_def)
        next
          case (Some ns)
          then show ?thesis using sq len
            by (simp add: Let_def split: prod.splits sum.splits)
        qed
      qed
    qed
  qed
  then show ?case using zero one more by metis
qed

lemma noised_data_state:
  "\<exists>j. snd (noised_data C data corr_mat noise_amount n_samples s)
       = s\<lparr>noise_draws := noise_draws s
             @ replicate j (replicate (height data * width data) 0,
                            map (map (fmul noise_amount)) corr_mat)\<rparr>"
proof -
  have "snd (noised_data C data corr_mat noise_amount n_samples s)
        = snd (noise_loop C data (map (map (fmul noise_amount)) corr_mat) (nat n_samples) s)"
    by (simp add: noised_data_def Let_def split: prod.splits sum.splits)
  then show ?thesis using noise_loop_state by simp
qed

lemma present_state:
  "\<exists>sh sv. snd (present C imgs avg i visual save_path s) = s\<lparr>shown := sh, saved := sv\<rparr>"
proof -
  have id: "s = s\<lparr>shown := shown s, saved := saved s\<rparr>" by simp
  have a: "s\<lparr>shown := x\<rparr> = s\<lparr>shown := x, saved := saved s\<rparr>" for x by simp
  have b: "s\<lparr>saved := y\<rparr> = s\<lparr>shown := shown s, saved := y\<rparr>" for y by simp
  show ?thesis
    apply (simp add: present_def Let_def split: option.splits)
    apply (intro conjI impI allI)
    using id a b apply metis+
    done
qed

lemma chunk_calls_repeat:
  "list_all (\<lambda>c. \<exists>k. snd c = np_repeat ls k) (chunk_calls dn ls n split)"
  by (auto simp: chunk_calls_def Let_def list_all_iff)

lemma interpret_avg_state:
  assumes pipe: "images_transform_pipeline C inputs resize_to crop_to = (imgs, data)"
    and pred: "build_predict_fn C gradient_of (samples data) labels = (g0, pl, pp)"
  shows "\<exists>j new. snd (interpret_avg C inputs labels correlation_matrices noise_amount n_samples
                     split gradient_of resize_to crop_to s)
           = s\<lparr>predicted_label := Some pl, predicted_proba := Some pp,
               noise_draws := noise_draws s
                 @ replicate j (replicate (height data * width data) 0,
                      map (map (fmul noise_amount))
                        (the (correlation_matrices ((case labels of None \<Rightarrow> pl | Some ls \<Rightarrow> ls) ! 0)))),
               predict_calls := predict_calls s @ (samples data, labels) # new\<rparr> \<and>
           list_all (\<lambda>c. \<exists>k. snd c = Some (np_repeat (case labels of None \<Rightarrow> pl | Some ls \<Rightarrow> ls) k)) new"
proof -
  define l1 where "l1 = (case labels of None \<Rightarrow> pl | Some ls \<Rightarrow> ls)"
  define s1 where "s1 = s\<lparr>predicted_label := Some pl, predicted_proba := Some pp,
                 predict_calls := predict_calls s @ [(samples data, labels)]\<rparr>"
  let ?d = "\<lambda>M. (replicate (height data * width data) 0, map (map (fmul noise_amount)) M)"
  let ?R = "snd (interpret_avg C inputs labels correlation_matrices noise_amount n_samples
                     split gradient_of resize_to crop_to s)"
  have early: "s1 = s\<lparr>predicted_label := Some pl, predicted_proba := Some pp,
               noise_draws := noise_draws s @ replicate 0 (?d (the (correlation_matrices (l1 ! 0)))),
               predict_calls := predict_calls s @ (samples data, labels) # []\<rparr>"
    by (simp add: s1_def)
  have goal_early: ?thesis if "?R = s1"
    unfolding l1_def[symmetric] using that early
    by (intro exI[of _ 0] exI[of _ "[]"]) simp
  show ?thesis
  proof (cases "length l1 = 1")
    case False
    then have "?R = s1" using pipe pred by (simp add: interpret_avg_def Let_def l1_def s1_def)
    then show ?thesis by (rule goal_early)
  next
    case True
    show ?thesis
    proof (cases "correlation_matrices (l1 ! 0)")
      case None
      then have "?R = s1" using pipe pred True
        by (simp add: interpret_avg_def Let_def l1_def s1_def)
      then show ?thesis by (rule goal_early)
    next
      case (Some corr_mat)
      obtain r s2 where nd: "noised_data C data corr_mat noise_amount n_samples s1 = (r, s2)"
        by (cases "noised_data C data corr_mat noise_amount n_samples s1") auto
      obtain j where j: "s2 = s1\<lparr>noise_draws := noise_draws s1 @ replicate j (?d corr_mat)\<rparr>"
        using noised_data_state[of C data corr_mat noise_amount n_samples s1] nd by auto
      show ?thesis
      proof (cases r)
        case (Inl e)
        then have "?R = s2" using pipe pred True Some nd
          by (simp add: interpret_avg_def Let_def l1_def s1_def)
        then have "?R = s\<lparr>predicted_label := Some pl, predicted_proba := Some pp,
               noise_draws := noise_draws s @ replicate j (?d (the (correlation_matrices (l1 ! 0)))),
               predict_calls := predict_calls s @ (samples data, labels) # []\<rparr>"
          using j Some by (simp add: s1_def)
        then show ?thesis unfolding l1_def[symmetric]
          by (intro exI[of _ j] exI[of _ "[]"]) simp
      next
        case (Inr dn)
        let ?new = "map (\<lambda>(b, ls). (b, Some ls)) (chunk_calls dn l1 n_samples split)"
        have "?R = s2\<lparr>predict_calls := predict_calls s2 @ ?new\<rparr>"
          using pipe pred True Some nd Inr
          by (simp add: interpret_avg_def chunked_gradients_def Let_def l1_def s1_def)
        then have R: "?R = s\<lparr>predicted_label := Some pl, predicted_proba := Some pp,
               noise_draws := noise_draws s @ replicate j (?d (the (correlation_matrices (l1 ! 0)))),
               predict_calls := predict_calls s @ (samples data, labels) # ?new\<rparr>"
          using j Some by (simp add: s1_def)
        have "list_all (\<lambda>c. \<exists>k. snd c = Some (np_repeat l1 k)) ?new"
          using chunk_calls_repeat[of l1 dn n_samples split]
          by (force simp: list_all_iff)
        with R show ?thesis unfolding l1_def[symmetric]
          by (intro exI[of _ j] exI[of _ ?new]) simp
      qed
    qed
  qed
qed

lemma interpret_core_state:
  "\<exists>sh sv la. snd (interpret_core C inputs labels correlation_matrices noise_amount n_samples
                     split gradient_of resize_to crop_to visual save_path s)
     = (snd (interpret_avg C inputs labels correlation_matrices noise_amount n_samples
                     split gradient_of resize_to crop_to s))\<lparr>labels_attr := la, shown := sh, saved := sv\<rparr>"
proof -
  let ?A = "interpret_avg C inputs labels correlation_matrices noise_amount n_samples
                     split gradient_of resize_to crop_to s"
  obtain r s1 where A: "?A = (r, s1)" by (cases ?A) auto
  let ?K = "snd (interpret_core C inputs labels correlation_matrices noise_amount n_samples
                     split gradient_of resize_to crop_to visual save_path s)"
  show ?thesis
  proof (cases r)
    case (Inl e)
    then have "?K = s1" using A by (simp add: interpret_core_def)
    then have "?K = (snd ?A)\<lparr>labels_attr := labels_attr s1, shown := shown s1, saved := saved s1\<rparr>"
      using A by simp
    then show ?thesis by blast
  next
    case (Inr t)
    obtain imgs l1 avg where t: "t = (imgs, l1, avg)" by (cases t) auto
    let ?P = "present C imgs avg (stale_i n_samples split) visual save_path s1"
    obtain q s2 where P: "?P = (q, s2)" by (cases ?P) auto
    obtain sh sv where s2: "s2 = s1\<lparr>shown := sh, saved := sv\<rparr>"
      using present_state[of C imgs avg "stale_i n_samples split" visual save_path s1] P by auto
    show ?thesis
    proof (cases q)
      case (Inl e)
      then have "?K = s2" using A Inr t P by (simp add: interpret_core_def)
      then have "?K = (snd ?A)\<lparr>labels_attr := labels_attr s1, shown := sh, saved := sv\<rparr>"
        using A s2 by simp
      then show ?thesis by blast
    next
      case (Inr u)
      then have "?K = s2\<lparr>labels_attr := Some l1\<rparr>"
        using A \<open>r = Inr t\<close> t P by (simp add: interpret_core_def)
      then have "?K = (snd ?A)\<lparr>labels_attr := Some l1, shown := sh, saved := sv\<rparr>"
        using A s2 by simp
      then show ?thesis by blast
    qed
  qed
qed

text \<open>
  Label resolution in the body from line 102. When no label is supplied and the model
  predicts the class \<open>l\<close> for the unperturbed input: the first call of \<^verbatim>\<open>predict_fn\<close> that the pipeline logs is the one on
  the unperturbed input without labels, every later call carries only the label \<open>l\<close>
  (so the call without labels is made once), and every draw of the noise stage is asked
  for the covariance \<^verbatim>\<open>noise_amount * correlation_matrices[l]\<close>. And for any supplied
  or missing labels, whatever the outcome, the two attributes hold afterwards exactly the
  predicted label and probability that this first call returned, in place of what they
  held before.
\<close>

theorem label_resolution:
  assumes pipe: "images_transform_pipeline C inputs resize_to crop_to = (imgs, data)"
    and pred: "build_predict_fn C gradient_of (samples data) None = (g0, [l], pp)"
    and corr: "correlation_matrices l = Some corr_mat"
  shows "(\<exists>new. predict_calls (snd (interpret_core C inputs None correlation_matrices noise_amount
                    n_samples split gradient_of resize_to crop_to visual save_path s))
                = predict_calls s @ (samples data, None) # new \<and>
              list_all (\<lambda>c. \<exists>k. snd c = Some (replicate k l)) new) \<and>
         list_all (\<lambda>d. d = (replicate (height data * width data) 0,
                             map (map (fmul noise_amount)) corr_mat))
           (drop (length (noise_draws s))
              (noise_draws (snd (interpret_core C inputs None correlation_matrices noise_amount
                    n_samples split gradient_of resize_to crop_to visual save_path s)))) \<and>
         predicted_label (snd (interpret_core C inputs labels correlation_matrices noise_amount
                    n_samples split gradient_of resize_to crop_to visual save_path s))
           = Some (fst (snd (build_predict_fn C gradient_of (samples data) labels))) \<and>
         predicted_proba (snd (interpret_core C inputs labels correlation_matrices noise_amount
                    n_samples split gradient_of resize_to crop_to visual save_path s))
           = Some (snd (snd (build_predict_fn C gradient_of (samples data) labels)))"
proof -
  let ?core = "\<lambda>lb. snd (interpret_core C inputs lb correlation_matrices noise_amount
                    n_samples split gradient_of resize_to crop_to visual save_path s)"
  let ?avg = "\<lambda>lb. snd (interpret_avg C inputs lb correlation_matrices noise_amount
                    n_samples split gradient_of resize_to crop_to s)"
  obtain sh sv la where c0: "?core None = (?avg None)\<lparr>labels_attr := la, shown := sh, saved := sv\<rparr>"
    using interpret_core_state by blast
  obtain j new where a0: "?avg None
           = s\<lparr>predicted_label := Some [l], predicted_proba := Some pp,
               noise_draws := noise_draws s
                 @ replicate j (replicate (height data * width data) 0,
                      map (map (fmul noise_amount)) corr_mat),
               predict_calls := predict_calls s @ (samples data, None) # new\<rparr>"
    and t0: "list_all (\<lambda>c. \<exists>k. snd c = Some (np_repeat [l] k)) new"
    using interpret_avg_state[OF pipe pred, of correlation_matrices noise_amount n_samples split s] corr
    by auto
  have calls: "predict_calls (?core None) = predict_calls s @ (samples data, None) # new"
    using c0 a0 by simp
  have target: "list_all (\<lambda>c. \<exists>k. snd c = Some (replicate k l)) new"
    using t0 by (auto simp: list_all_iff np_repeat_def)
  have draws: "drop (length (noise_draws s)) (noise_draws (?core None))
               = replicate j (replicate (height data * width data) 0,
                      map (map (fmul noise_amount)) corr_mat)"
    using c0 a0 by simp
  obtain g1 pl1 pp1 where pred1: "build_predict_fn C gradient_of (samples data) labels = (g1, pl1, pp1)"
    by (cases "build_predict_fn C gradient_of (samples data) labels") auto
  obtain sh1 sv1 la1 where c1: "?core labels = (?avg labels)\<lparr>labels_attr := la1, shown := sh1, saved := sv1\<rparr>"
    using interpret_core_state by blast
  obtain j1 new1 where a1: "?avg labels
           = s\<lparr>predicted_label := Some pl1, predicted_proba := Some pp1,
               noise_draws := noise_draws s
                 @ replicate j1 (replicate (height data * width data) 0,
                      map (map (fmul noise_amount))
                        (the (correlation_matrices ((case labels of None \<Rightarrow> pl1 | Some ls \<Rightarrow> ls) ! 0)))),
               predict_calls := predict_calls s @ (samples data, labels) # new1\<rparr>"
    using interpret_avg_state[OF pipe pred1, of correlation_matrices noise_amount n_samples split s]
    by auto
  have attrs: "predicted_label (?core labels) = Some pl1" "predicted_proba (?core labels) = Some pp1"
    using c1 a1 by simp_all
  have d: "list_all (\<lambda>d. d = (replicate (height data * width data) 0,
                             map (map (fmul noise_amount)) corr_mat))
           (drop (length (noise_draws s)) (noise_draws (?core None)))"
    unfolding draws by (simp add: list_all_iff)
  from calls target d attrs pred1 show ?thesis by auto
qed

text \<open>
  A run without label from a state whose \<^verbatim>\<open>predicted_label\<close> held \<open>[3]\<close>: afterwards it
  holds \<open>[7]\<close>; one call on the input, then two chunks with the label 7.
\<close>

theorem label_resolution_witness:
  "images_transform_pipeline ex_collaborators [''x''] 224 None
     = ([[[[0, 0, 0], [0, 0, 0]]]], ex_data) \<and>
   build_predict_fn ex_collaborators ''probability'' (samples ex_data) None
     = ([[[2, 4], [6, 8], [10, 12]]], [7], [1 / 2]) \<and>
   ex_corr 7 = Some [[Finite 1, Finite 0], [Finite 0, Finite 1]] \<and>
   predicted_label (snd (interpret_core ex_collaborators [''x''] None ex_corr (1 / 10) 2 2
       ''probability'' 224 None False None (ex_state\<lparr>predicted_label := Some [3]\<rparr>))) = Some [7] \<and>
   predicted_proba (snd (interpret_core ex_collaborators [''x''] None ex_corr (1 / 10) 2 2
       ''probability'' 224 None False None (ex_state\<lparr>predicted_label := Some [3]\<rparr>))) = Some [1 / 2] \<and>
   predict_calls (snd (interpret_core ex_collaborators [''x''] None ex_corr (1 / 10) 2 2
       ''probability'' 224 None False None (ex_state\<lparr>predicted_label := Some [3]\<rparr>)))
     = [([[[1, 2], [3, 4], [5, 6]]], None),
        ([[[2, 3], [4, 5], [6, 7]]], Some [7]),
        ([[[3, 4], [5, 6], [7, 8]]], Some [7])] \<and>
   noise_draws (snd (interpret_core ex_collaborators [''x''] None ex_corr (1 / 10) 2 2
       ''probability'' 224 None False None (ex_state\<lparr>predicted_label := Some [3]\<rparr>)))
     = [([0, 0], [[Finite (1 / 10), Finite 0], [Finite 0, Finite (1 / 10)]]),
        ([0, 0], [[Finite (1 / 10), Finite 0], [Finite 0, Finite (1 / 10)]])]"
proof -
  let ?s = "ex_state\<lparr>predicted_label := Some [3]\<rparr>"
  have p: "images_transform_pipeline ex_collaborators [''x''] 224 None
      = ([[[[0, 0, 0], [0, 0, 0]]]], ex_data)"
    by (simp add: ex_collaborators_def)
  have g: "build_predict_fn ex_collaborators ''probability'' (samples ex_data) None
     = ([[[2, 4], [6, 8], [10, 12]]], [7], [1 / 2])"
    by (simp add: ex_collaborators_def ex_predict_def ex_data_def)
  have c: "ex_corr 7 = Some [[Finite 1, Finite 0], [Finite 0, Finite 1]]"
    by (simp add: ex_corr_def)
  note T = label_resolution[where correlation_matrices = ex_corr and l = 7, OF p g c,
      where labels = None and noise_amount = "1 / 10" and n_samples = 2 and split = 2
        and visual = False and save_path = None and s = ?s]
  have attrs: "predicted_label (snd (interpret_core ex_collaborators [''x''] None ex_corr (1 / 10)
       2 2 ''probability'' 224 None False None ?s)) = Some [7]"
    "predicted_proba (snd (interpret_core ex_collaborators [''x''] None ex_corr (1 / 10) 2 2
       ''probability'' 224 None False None ?s)) = Some [1 / 2]"
    using T g by simp_all
  have calls: "predict_calls (snd (interpret_core ex_collaborators [''x''] None ex_corr (1 / 10) 2 2
       ''probability'' 224 None False None ?s))
     = [([[[1, 2], [3, 4], [5, 6]]], None),
        ([[[2, 3], [4, 5], [6, 7]]], Some [7]),
        ([[[3, 4], [5, 6], [7, 8]]], Some [7])]"
    by (simp add: interpret_core_def interpret_avg_def present_def py_slice_def py_slice_from_def
        slice_index_def ex_simps)
  have draws: "noise_draws (snd (interpret_core ex_collaborators [''x''] None ex_corr (1 / 10) 2 2
       ''probability'' 224 None False None ?s))
     = [([0, 0], [[Finite (1 / 10), Finite 0], [Finite 0, Finite (1 / 10)]]),
        ([0, 0], [[Finite (1 / 10), Finite 0], [Finite 0, Finite (1 / 10)]])]"
    by (simp add: interpret_core_def interpret_avg_def present_def py_slice_def py_slice_from_def
        slice_index_def ex_simps)
  from p g c attrs calls draws show ?thesis by simp
qed

text \<open>
  The two attributes in the body from line 102, with no condition on the label or on the
  mapping: whatever the labels and whatever the outcome, they hold afterwards the
  predicted label and probability that the call of \<^verbatim>\<open>predict_fn\<close> on the unperturbed
  input returned.
\<close>

theorem attributes_recorded:
  assumes pipe: "images_transform_pipeline C inputs resize_to crop_to = (imgs, data)"
  shows "predicted_label (snd (interpret_core C inputs labels correlation_matrices noise_amount
                    n_samples split gradient_of resize_to crop_to visual save_path s))
           = Some (fst (snd (build_predict_fn C gradient_of (samples data) labels))) \<and>
         predicted_proba (snd (interpret_core C inputs labels correlation_matrices noise_amount
                    n_samples split gradient_of resize_to crop_to visual save_path s))
           = Some (snd (snd (build_predict_fn C gradient_of (samples data) labels)))"
proof -
  let ?core = "snd (interpret_core C inputs labels correlation_matrices noise_amount
                    n_samples split gradient_of resize_to crop_to visual save_path s)"
  let ?avg = "snd (interpret_avg C inputs labels correlation_matrices noise_amount
                    n_samples split gradient_of resize_to crop_to s)"
  obtain g1 pl1 pp1 where pred1: "build_predict_fn C gradient_of (samples data) labels = (g1, pl1, pp1)"
    by (cases "build_predict_fn C gradient_of (samples data) labels") auto
  obtain sh1 sv1 la1 where c1: "?core = ?avg\<lparr>labels_attr := la1, shown := sh1, saved := sv1\<rparr>"
    using interpret_core_state by blast
  obtain j1 new1 where a1: "?avg
           = s\<lparr>predicted_label := Some pl1, predicted_proba := Some pp1,
               noise_draws := noise_draws s
                 @ replicate j1 (replicate (height data * width data) 0,
                      map (map (fmul noise_amount))
                        (the (correlation_matrices ((case labels of None \<Rightarrow> pl1 | Some ls \<Rightarrow> ls) ! 0)))),
               predict_calls := predict_calls s @ (samples data, labels) # new1\<rparr>"
    using interpret_avg_state[OF pipe pred1, of correlation_matrices noise_amount n_samples split s]
    by auto
  show ?thesis using c1 a1 pred1 by simp
qed

text \<open>
  A supplied label 3 with a matrix, a predicted class 7 without one: the call completes and
  the attribute holds \<open>[7]\<close>.
\<close>

theorem attributes_recorded_witness:
  "images_transform_pipeline ex_collaborators [''x''] 224 None
     = ([[[[0, 0, 0], [0, 0, 0]]]], ex_data) \<and>
   predicted_label (snd (interpret_core ex_collaborators [''x''] (Some [3])
       [3 \<mapsto> [[Finite 1, Finite 0], [Finite 0, Finite 1]]] (1 / 10) 2 2 ''probability'' 224 None
       False None ex_state)) = Some [7] \<and>
   predicted_proba (snd (interpret_core ex_collaborators [''x''] (Some [3])
       [3 \<mapsto> [[Finite 1, Finite 0], [Finite 0, Finite 1]]] (1 / 10) 2 2 ''probability'' 224 None
       False None ex_state)) = Some [1 / 2]"
proof -
  have p: "images_transform_pipeline ex_collaborators [''x''] 224 None
      = ([[[[0, 0, 0], [0, 0, 0]]]], ex_data)"
    by (simp add: ex_collaborators_def)
  have g: "build_predict_fn ex_collaborators ''probability'' (samples ex_data) (Some [3])
     = ([[[2, 4], [6, 8], [10, 12]]], [7], [1 / 2])"
    by (simp add: ex_collaborators_def ex_predict_def ex_data_def)
  from attributes_recorded[OF p, where labels = "Some [3]" and gradient_of = "''probability''"
      and correlation_matrices = "[3 \<mapsto> [[Finite 1, Finite 0], [Finite 0, Finite 1]]]"
      and noise_amount = "1 / 10" and n_samples = 2 and split = 2 and visual = False
      and save_path = None and s = ex_state] p g
  show ?thesis by simp
qed

text \<open>
  Claim C8 asks that in every call of \<^verbatim>\<open>interpret\<close> the gradient collaborator be invoked
  on the unperturbed input and the prediction be recorded. The method as it is written
  does not get as far as line 108: a call without labels, from a state whose
  \<^verbatim>\<open>predicted_label\<close> holds \<open>[3]\<close>, stops at line 93 with an unbound-local error;
  \<^verbatim>\<open>predict_fn\<close> has not been called and the attributes are as they were.
\<close>

theorem interpret_call_records_nothing:
  "fst (interpret_call ex_collaborators [''x''] None [''dataset''] (Some [7, 7, 7]) (1 / 10) 50 2
          ''probability'' 224 None False None (ex_state\<lparr>predicted_label := Some [3]\<rparr>))
     = Inl (UnboundLocalError ''data'') \<and>
   predict_calls (snd (interpret_call ex_collaborators [''x''] None [''dataset'']
          (Some [7, 7, 7]) (1 / 10) 50 2 ''probability'' 224 None False None
          (ex_state\<lparr>predicted_label := Some [3]\<rparr>))) = [] \<and>
   predicted_label (snd (interpret_call ex_collaborators [''x''] None [''dataset'']
          (Some [7, 7, 7]) (1 / 10) 50 2 ''probability'' 224 None False None
          (ex_state\<lparr>predicted_label := Some [3]\<rparr>))) = Some [3] \<and>
   predicted_proba (snd (interpret_call ex_collaborators [''x''] None [''dataset'']
          (Some [7, 7, 7]) (1 / 10) 50 2 ''probability'' 224 None False None
          (ex_state\<lparr>predicted_label := Some [3]\<rparr>))) = None"
  by (simp add: interpret_call_def interpret_frame_def ex_state_def)

section \<open>The skip rule of the estimator\<close>

lemma np_where_eq_length: "length (np_where_eq ls c) = count_list ls c"
proof -
  have "filter (\<lambda>x. x = c) (map (\<lambda>i. ls ! i) [0..<length ls])
        = map (\<lambda>i. ls ! i) (filter (\<lambda>i. ls ! i = c) [0..<length ls])"
    by (simp add: filter_map comp_def)
  then have "length (filter (\<lambda>x. x = c) ls) = length (np_where_eq ls c)"
    by (simp add: map_nth np_where_eq_def)
  moreover have "count_list ls c = length (filter (\<lambda>x. x = c) ls)"
    by (induction ls) simp_all
  ultimately show ?thesis by simp
qed

lemma np_where_eq_range: "i \<in> set (np_where_eq ls c) \<Longrightarrow> i < length ls"
  by (simp add: np_where_eq_def)

lemma square_add_eye: "square (add_eye M d e) d"
  by (simp add: square_def add_eye_def list_all_iff)

lemma corr_loop_result:
  assumes "length (items labels) \<le> length (samples data)"
    and elementwise: "is_ndarray labels \<or> numpy_class"
  shows "corr_loop raises data labels numpy_class cs cm0
         = Inr (\<lambda>c. if c \<in> set cs \<and> 2 \<le> count_list (items labels) c
                     then Some (class_matrix data (items labels) c) else cm0 c)"
proof (induction cs arbitrary: cm0)
  case Nil
  then show ?case by simp
next
  case (Cons c cs)
  have idx: "class_indices_of raises labels numpy_class c = Inr (np_where_eq (items labels) c)"
    using elementwise by (auto simp: class_indices_of_def)
  have inrange: "\<not> list_ex (\<lambda>i. length (samples data) \<le> i) (np_where_eq (items labels) c)"
    using assms(1) np_where_eq_range[of _ "items labels" c] by (fastforce simp: list_ex_iff)
  show ?case
  proof (cases "count_list (items labels) c < 2")
    case True
    then show ?thesis using idx inrange Cons.IH[of cm0]
      by (auto simp: Let_def np_where_eq_length fun_eq_iff)
  next
    case False
    have len: "\<not> length (np_where_eq (items labels) c) < 2"
      using False by (simp add: np_where_eq_length)
    have step: "corr_loop raises data labels numpy_class (c # cs) cm0
                = corr_loop raises data labels numpy_class cs
                    (cm0(c \<mapsto> class_matrix data (items labels) c))"
      using idx inrange len by (simp add: Let_def class_matrix_def)
    have "(\<lambda>x. if x \<in> set cs \<and> 2 \<le> count_list (items labels) x
               then Some (class_matrix data (items labels) x)
               else (cm0(c \<mapsto> class_matrix data (items labels) c)) x)
          = (\<lambda>x. if x \<in> set (c # cs) \<and> 2 \<le> count_list (items labels) x
               then Some (class_matrix data (items labels) x) else cm0 x)"
      using False by (auto simp: fun_eq_iff)
    then show ?thesis
      unfolding step Cons.IH[of "cm0(c \<mapsto> class_matrix data (items labels) c)"] by simp
  qed
qed

text \<open>
  The skip rule where the comparison of line 242 is elementwise (the labels are an array,
  or the classes are \<^verbatim>\<open>np.unique\<close>'s or an array's): for a 3-channel reference tensor with
  aligned labels, the estimator returns a mapping and no error; a class with 0 or 1
  samples has no entry in it; a class that is not among the classes considered has none; a
  considered class with 2 or more samples has an entry, a matrix with \<open>H * W\<close> rows of
  \<open>H * W\<close> entries; and when no considered class has 2 samples the mapping is empty.
\<close>

theorem skip_rule:
  assumes pipe: "images_transform_pipeline C inputs resize_to crop_to = (imgs, data)"
    and chans: "channels data = 3"
    and aligned: "length (items labels) \<le> length (samples data)"
    and elementwise:
      "is_ndarray labels \<or> (case specific_classes of None \<Rightarrow> True | Some cs \<Rightarrow> is_ndarray cs)"
    and classes:
      "classes = (case specific_classes of None \<Rightarrow> np_unique (items labels) | Some cs \<Rightarrow> items cs)"
  shows "\<exists>cm. fst (init_corr_mat C inputs labels specific_classes resize_to crop_to save_path
                     visual s) = Inr cm \<and>
              (\<forall>c. count_list (items labels) c < 2 \<longrightarrow> cm c = None) \<and>
              (\<forall>c. c \<notin> set classes \<longrightarrow> cm c = None) \<and>
              (\<forall>c\<in>set classes. 2 \<le> count_list (items labels) c \<longrightarrow>
                 (\<exists>M. cm c = Some M \<and> square M (height data * width data))) \<and>
              (list_all (\<lambda>c. count_list (items labels) c < 2) classes \<longrightarrow> cm = Map.empty)"
proof -
  let ?cm = "\<lambda>c. if c \<in> set classes \<and> 2 \<le> count_list (items labels) c
                  then Some (class_matrix data (items labels) c) else None"
  have "fst (init_corr_mat C inputs labels specific_classes resize_to crop_to save_path visual s)
        = Inr ?cm"
    using pipe chans
      corr_loop_result[OF aligned elementwise, of "nonzero_0d_raises C" classes Map.empty]
    by (simp add: init_corr_mat_def Let_def classes)
  moreover have "\<forall>c\<in>set classes. 2 \<le> count_list (items labels) c \<longrightarrow>
                 (\<exists>M. ?cm c = Some M \<and> square M (height data * width data))"
    by (simp add: class_matrix_def square_add_eye)
  moreover have "list_all (\<lambda>c. count_list (items labels) c < 2) classes \<longrightarrow> ?cm = Map.empty"
    by (auto simp: list_all_iff fun_eq_iff)
  ultimately show ?thesis by (intro exI[of _ ?cm]) auto
qed

text \<open>
  Labels 0, 0, 1 as an array on the example set: class 1 is skipped, class 0 gets a
  \<open>2 \<times> 2\<close> matrix.
\<close>

theorem skip_rule_witness:
  "images_transform_pipeline ex_collaborators [''dataset''] 64 None = ([], ex_dataset) \<and>
   channels ex_dataset = 3 \<and> length [0, 0, 1 :: int] \<le> length (samples ex_dataset) \<and>
   (\<exists>cm. fst (init_corr_mat ex_collaborators [''dataset''] (NdArray [0, 0, 1]) None 64 None None
                False ex_state) = Inr cm \<and>
         cm 1 = None \<and> cm 2 = None \<and>
         (\<exists>M. cm 0 = Some M \<and> square M 2))"
proof -
  have p: "images_transform_pipeline ex_collaborators [''dataset''] 64 None = ([], ex_dataset)"
    by (simp add: ex_collaborators_def)
  have c: "channels ex_dataset = 3" by (simp add: ex_dataset_def)
  have a: "length (items (NdArray [0, 0, 1])) \<le> length (samples ex_dataset)"
    by (simp add: ex_dataset_def)
  have e: "is_ndarray (NdArray [0, 0, 1]) \<or> (case None of None \<Rightarrow> True | Some cs \<Rightarrow> is_ndarray cs)"
    by simp
  have u: "[0, 1] = (case None of None \<Rightarrow> np_unique (items (NdArray [0, 0, 1])) | Some cs \<Rightarrow> items cs)"
    by (simp add: np_unique_def)
  from skip_rule[OF p c a e u, where save_path = None and visual = False and s = ex_state]
  obtain cm where cm: "fst (init_corr_mat ex_collaborators [''dataset''] (NdArray [0, 0, 1]) None
                64 None None False ex_state) = Inr cm"
    and skip: "\<forall>c. count_list [0, 0, 1 :: int] c < 2 \<longrightarrow> cm c = None"
    and keep: "\<forall>c\<in>set [0, 1 :: int]. 2 \<le> count_list [0, 0, 1 :: int] c \<longrightarrow>
                 (\<exists>M. cm c = Some M \<and> square M (height ex_dataset * width ex_dataset))"
    by auto
  have "cm 1 = None" "cm 2 = None" using skip by simp_all
  moreover have "\<exists>M. cm 0 = Some M \<and> square M 2" using keep by (simp add: ex_dataset_def)
  ultimately show ?thesis using p c a cm by auto
qed

text \<open>
  Claim C6 asks for an entry for every considered class with 2 or more samples. With the
  labels given as a Python list and the classes as a Python list of integers, both allowed
  by the docstring, line 242 compares a list with an integer: the comparison is \<open>False\<close>,
  no sample is selected, and the class is skipped however many samples it has. On the
  reference set \<^verbatim>\<open>varied\<close>, two images of class 0, the estimator returns the empty mapping
  with the older numpy and stops with a ValueError with the newer.
\<close>

theorem list_labels_lose_class:
  "count_list (items (PyList [0, 0])) 0 = 2 \<and>
   fst (init_corr_mat ex_collaborators [''varied''] (PyList [0, 0]) (Some (PyList [0])) 64 None
          None False ex_state) = Inr Map.empty \<and>
   fst (init_corr_mat (ex_collaborators\<lparr>nonzero_0d_raises := True\<rparr>) [''varied'']
          (PyList [0, 0]) (Some (PyList [0])) 64 None None False ex_state)
     = Inl (ValueError ''Calling nonzero on 0d arrays is not allowed'')"
  by (simp add: init_corr_mat_def ex_collaborators_def ex_varied_def class_indices_of_def Let_def)

section \<open>A constant pixel defeats the diagonal correction\<close>

text \<open>
  Claim C5 asks that every estimated matrix be symmetric and positive definite, also when
  a pixel is constant across the samples of the class. On the example set, whose pixel 0
  is 0 in all three images of class 0, the standard deviation of that pixel is 0,
  \<^verbatim>\<open>np.corrcoef\<close> divides \<open>0\<close> by \<open>0\<close>, and the matrix stored for the class has NaN in
  the row and the column of that pixel, the diagonal entry included: adding \<open>\<epsilon>\<close> to NaN
  leaves NaN. Such a matrix is not equal to its transpose (NaN differs from NaN) and is
  not a positive definite real matrix.
\<close>

theorem constant_feature_gives_nan:
  "\<exists>cm. fst (init_corr_mat ex_collaborators [''dataset''] (NdArray [0, 0, 0]) None 64 None None
               False ex_state) = Inr cm \<and>
        cm 0 = Some [[NaN, NaN], [NaN, Finite (100001 / 100000)]]"
proof -
  have u: "np_unique [0, 0, 0] = [0]" by (simp add: np_unique_def)
  have w: "np_where_eq [0, 0, 0] 0 = [0, 1, 2]" by (simp add: np_where_eq_def upt_rec)
  have cv: "np_cov [[0, 0], [0, 2], [0, 4]] 2 = [[0, 0], [0, 4]]"
    by (simp add: np_cov_def Let_def upt_rec)
  have cc: "np_corrcoef [[0, 0], [0, 2], [0, 4]] 2 = [[NaN, NaN], [NaN, Finite 1]]"
    by (simp add: np_corrcoef_def cv Let_def upt_rec fdiv_def fclip_def)
  have ae: "add_eye [[NaN, NaN], [NaN, Finite 1]] 2 epsilon
            = [[NaN, NaN], [NaN, Finite (100001 / 100000)]]"
    by (simp add: add_eye_def epsilon_def upt_rec)
  have "fst (init_corr_mat ex_collaborators [''dataset''] (NdArray [0, 0, 0]) None 64 None None
               False ex_state) = Inr [0 \<mapsto> [[NaN, NaN], [NaN, Finite (100001 / 100000)]]]"
    by (simp add: init_corr_mat_def ex_collaborators_def ex_dataset_def class_indices_of_def
        u w cc ae Let_def)
  then show ?thesis by simp
qed

section \<open>The estimate when every pixel varies\<close>

text \<open>
  The Cauchy-Schwarz inequality for finite sums, the bound it gives on a correlation
  coefficient (so that the clipping of \<^verbatim>\<open>np.corrcoef\<close> changes nothing), and the
  quadratic form of a correlation matrix as a sum of squares.
\<close>

lemma cauchy_schwarz_sum:
  fixes u v :: "nat \<Rightarrow> real"
  shows "(\<Sum>q<n. u q * v q)\<^sup>2 \<le> (\<Sum>q<n. (u q)\<^sup>2) * (\<Sum>q<n. (v q)\<^sup>2)"
proof -
  define A where "A = (\<Sum>q<n. (u q)\<^sup>2)"
  define B where "B = (\<Sum>q<n. u q * v q)"
  define D where "D = (\<Sum>q<n. (v q)\<^sup>2)"
  have A0: "0 \<le> A" unfolding A_def by (simp add: sum_nonneg)
  have quad: "0 \<le> t\<^sup>2 * A - 2 * t * B + D" for t
  proof -
    have "(\<Sum>q<n. (t * u q - v q)\<^sup>2) = (\<Sum>q<n. t\<^sup>2 * (u q)\<^sup>2 - 2 * t * (u q * v q) + (v q)\<^sup>2)"
      by (rule sum.cong) (simp_all add: power2_diff power_mult_distrib algebra_simps)
    also have "\<dots> = t\<^sup>2 * A - 2 * t * B + D"
      by (simp add: sum.distrib sum_subtractf sum_distrib_left A_def B_def D_def)
    finally have "(\<Sum>q<n. (t * u q - v q)\<^sup>2) = t\<^sup>2 * A - 2 * t * B + D" .
    moreover have "0 \<le> (\<Sum>q<n. (t * u q - v q)\<^sup>2)" by (simp add: sum_nonneg)
    ultimately show ?thesis by simp
  qed
  show ?thesis
  proof (cases "A = 0")
    case True
    then have "\<forall>q\<in>{..<n}. (u q)\<^sup>2 = 0"
      unfolding A_def by (subst (asm) sum_nonneg_eq_0_iff) simp_all
    then have "B = 0" unfolding B_def by simp
    then show ?thesis using True by (simp add: A_def B_def)
  next
    case False
    then have Apos: "0 < A" using A0 by simp
    have "0 \<le> (B / A)\<^sup>2 * A - 2 * (B / A) * B + D" by (rule quad)
    also have "(B / A)\<^sup>2 * A - 2 * (B / A) * B + D = D - B\<^sup>2 / A"
      using False by (simp add: power2_eq_square field_simps)
    finally have "B\<^sup>2 / A \<le> D" by simp
    then have "B\<^sup>2 \<le> D * A" using Apos by (simp add: pos_divide_le_eq)
    then show ?thesis by (simp add: A_def B_def D_def mult.commute)
  qed
qed

lemma corr_abs_le_one:
  fixes a :: "nat \<Rightarrow> nat \<Rightarrow> real"
  assumes k: "0 < k"
    and c: "\<And>i j. c i j = (\<Sum>q<n. a q i * a q j) * k"
    and pi: "0 < c i i" and pj: "0 < c j j"
  shows "\<bar>c i j / sqrt (c i i) / sqrt (c j j)\<bar> \<le> 1"
proof -
  have cs: "(\<Sum>q<n. a q i * a q j)\<^sup>2 \<le> (\<Sum>q<n. (a q i)\<^sup>2) * (\<Sum>q<n. (a q j)\<^sup>2)"
    by (rule cauchy_schwarz_sum)
  have "(c i j)\<^sup>2 = (\<Sum>q<n. a q i * a q j)\<^sup>2 * k\<^sup>2"
    by (simp add: c power_mult_distrib)
  also have "\<dots> \<le> ((\<Sum>q<n. (a q i)\<^sup>2) * (\<Sum>q<n. (a q j)\<^sup>2)) * k\<^sup>2"
    using cs by (rule mult_right_mono) simp
  also have "\<dots> = c i i * c j j"
    by (simp add: c power2_eq_square algebra_simps)
  finally have sq: "(c i j)\<^sup>2 \<le> c i i * c j j" .
  have "\<bar>c i j\<bar> = sqrt ((c i j)\<^sup>2)" by simp
  also have "\<dots> \<le> sqrt (c i i * c j j)" using sq by (simp only: real_sqrt_le_iff)
  also have "\<dots> = sqrt (c i i) * sqrt (c j j)" by (rule real_sqrt_mult)
  finally have le: "\<bar>c i j\<bar> \<le> sqrt (c i i) * sqrt (c j j)" .
  have si: "0 < sqrt (c i i)" and sj: "0 < sqrt (c j j)" using pi pj by simp_all
  have "\<bar>c i j / sqrt (c i i) / sqrt (c j j)\<bar> = \<bar>c i j\<bar> / (sqrt (c i i) * sqrt (c j j))"
    using si sj by (simp add: abs_mult)
  also have "\<dots> \<le> 1" using le si sj by (simp add: divide_le_eq)
  finally show ?thesis .
qed

lemma corr_quadratic_nonneg:
  fixes a :: "nat \<Rightarrow> nat \<Rightarrow> real"
  assumes k: "0 < k"
    and c: "\<And>i j. c i j = (\<Sum>q<n. a q i * a q j) * k"
  shows "0 \<le> (\<Sum>i<d. \<Sum>j<d. x i * (c i j / sqrt (c i i) / sqrt (c j j)) * x j)"
proof -
  define y where "y q i = x i * a q i / sqrt (c i i)" for q i
  have entry: "x i * (c i j / sqrt (c i i) / sqrt (c j j)) * x j = k * (\<Sum>q<n. y q i * y q j)" for i j
    by (simp add: c y_def sum_distrib_left sum_distrib_right algebra_simps sum_divide_distrib)
  have "(\<Sum>i<d. \<Sum>j<d. x i * (c i j / sqrt (c i i) / sqrt (c j j)) * x j)
        = (\<Sum>i<d. \<Sum>j<d. k * (\<Sum>q<n. y q i * y q j))"
    by (simp only: entry)
  also have "\<dots> = k * (\<Sum>i<d. \<Sum>j<d. \<Sum>q<n. y q i * y q j)"
    by (simp add: sum_distrib_left)
  also have "(\<Sum>i<d. \<Sum>j<d. \<Sum>q<n. y q i * y q j) = (\<Sum>i<d. \<Sum>q<n. \<Sum>j<d. y q i * y q j)"
    by (rule sum.cong[OF refl]) (rule sum.swap)
  also have "\<dots> = (\<Sum>q<n. \<Sum>i<d. \<Sum>j<d. y q i * y q j)"
    by (rule sum.swap)
  also have "\<dots> = (\<Sum>q<n. (\<Sum>i<d. y q i)\<^sup>2)"
    by (simp add: power2_eq_square sum_product)
  finally have "(\<Sum>i<d. \<Sum>j<d. x i * (c i j / sqrt (c i i) / sqrt (c j j)) * x j)
        = k * (\<Sum>q<n. (\<Sum>i<d. y q i)\<^sup>2)" .
  moreover have "0 \<le> k * (\<Sum>q<n. (\<Sum>i<d. y q i)\<^sup>2)"
    using k by (simp add: sum_nonneg)
  ultimately show ?thesis by simp
qed

lemma sum_list_nth_lessThan: "(\<Sum>r\<leftarrow>X. f r) = (\<Sum>q<length X. f (X ! q))"
proof -
  have "(\<Sum>r\<leftarrow>X. f r) = (\<Sum>q = 0..<length (map f X). map f X ! q)"
    by (rule sum_list_sum_nth)
  then show ?thesis by (simp add: atLeast0LessThan)
qed

lemma np_cov_nth:
  assumes "i < d" "j < d"
  shows "np_cov X d ! i ! j
         = (\<Sum>q<length X. centred X q i * centred X q j) * (1 / (real (length X) - 1))"
  using assms by (simp add: np_cov_def Let_def centred_def sum_list_nth_lessThan)

lemma np_cov_pos:
  assumes n2: "2 \<le> length X" and i: "i < d"
    and q: "q < length X" and q': "q' < length X" and ne: "X ! q ! i \<noteq> X ! q' ! i"
  shows "0 < np_cov X d ! i ! i"
proof -
  have k: "0 < 1 / (real (length X) - 1)" using n2 by simp
  have "\<exists>t<length X. centred X t i \<noteq> 0"
  proof (rule ccontr)
    assume "\<not> (\<exists>t<length X. centred X t i \<noteq> 0)"
    then have "centred X q i = 0" "centred X q' i = 0" using q q' by simp_all
    then show False using ne by (simp add: centred_def)
  qed
  then obtain t where t: "t < length X" "centred X t i \<noteq> 0" by blast
  have "0 < (centred X t i)\<^sup>2" using t(2) by simp
  also have "\<dots> \<le> (\<Sum>q<length X. (centred X q i)\<^sup>2)"
    using t(1) by (intro member_le_sum) simp_all
  finally have "0 < (\<Sum>q<length X. centred X q i * centred X q i)"
    by (simp add: power2_eq_square)
  then show ?thesis using k i by (simp add: np_cov_nth)
qed

lemma estimator_matrix:
  assumes n2: "2 \<le> length X" and var: "\<And>i. i < d \<Longrightarrow> 0 < np_cov X d ! i ! i"
  shows "\<exists>m. (\<forall>i<d. \<forall>j<d. add_eye (np_corrcoef X d) d e ! i ! j = Finite (m i j) \<and> m i j = m j i) \<and>
             (\<forall>x. 0 < e \<and> (\<exists>i<d. x i \<noteq> 0) \<longrightarrow> 0 < (\<Sum>i<d. \<Sum>j<d. x i * m i j * x j))"
proof -
  define k where "k = 1 / (real (length X) - 1)"
  define c where "c i j = (\<Sum>q<length X. centred X q i * centred X q j) * k" for i j
  define R where "R i j = c i j / sqrt (c i i) / sqrt (c j j)" for i j
  define m where "m i j = R i j + (if i = j then e else 0)" for i j
  have k: "0 < k" using n2 by (simp add: k_def)
  have cdef: "c i j = (\<Sum>q<length X. centred X q i * centred X q j) * k" for i j
    by (simp add: c_def)
  have cov: "np_cov X d ! i ! j = c i j" if "i < d" "j < d" for i j
    using that by (simp add: np_cov_nth c_def k_def)
  have pos: "0 < c i i" if "i < d" for i using var[OF that] cov[OF that that] by simp
  have sym: "c i j = c j i" for i j by (simp add: c_def mult.commute)
  have entry: "add_eye (np_corrcoef X d) d e ! i ! j = Finite (m i j)" if "i < d" "j < d" for i j
  proof -
    have si: "sqrt (c i i) \<noteq> 0" and sj: "sqrt (c j j) \<noteq> 0"
      using pos[OF that(1)] pos[OF that(2)] by simp_all
    have "\<bar>R i j\<bar> \<le> 1" unfolding R_def
      using k cdef pos[OF that(1)] pos[OF that(2)]
      by (rule corr_abs_le_one[where c = c and a = "centred X" and n = "length X" and k = k])
    then have clip: "max (- 1) (min 1 (R i j)) = R i j" by (simp add: abs_le_iff max_def min_def)
    have "np_corrcoef X d ! i ! j = Finite (R i j)"
      using that si sj clip
      by (simp add: np_corrcoef_def Let_def cov fdiv_def fclip_def R_def)
    then show ?thesis using that by (simp add: add_eye_def m_def)
  qed
  have msym: "m i j = m j i" for i j
    by (simp add: m_def R_def sym[of i j])
  have pd: "0 < (\<Sum>i<d. \<Sum>j<d. x i * m i j * x j)" if e: "0 < e" and nz: "\<exists>i<d. x i \<noteq> 0" for x
  proof -
    have split: "(\<Sum>i<d. \<Sum>j<d. x i * m i j * x j)
          = (\<Sum>i<d. \<Sum>j<d. x i * R i j * x j) + (\<Sum>i<d. \<Sum>j<d. x i * (if i = j then e else 0) * x j)"
      by (simp add: m_def algebra_simps sum.distrib)
    have diag: "(\<Sum>j<d. x i * (if i = j then e else 0) * x j) = e * (x i)\<^sup>2" if "i < d" for i
    proof -
      have "(\<Sum>j<d. x i * (if i = j then e else 0) * x j)
            = (\<Sum>j\<in>{..<d}. if i = j then x i * e * x j else 0)"
        by (rule sum.cong) simp_all
      also have "\<dots> = x i * e * x i" using that by (simp add: sum.delta')
      finally show ?thesis by (simp add: power2_eq_square)
    qed
    have "(\<Sum>i<d. \<Sum>j<d. x i * (if i = j then e else 0) * x j) = (\<Sum>i<d. e * (x i)\<^sup>2)"
      by (rule sum.cong) (simp_all add: diag)
    also have "\<dots> = e * (\<Sum>i<d. (x i)\<^sup>2)" by (simp add: sum_distrib_left)
    finally have second: "(\<Sum>i<d. \<Sum>j<d. x i * (if i = j then e else 0) * x j) = e * (\<Sum>i<d. (x i)\<^sup>2)" .
    obtain i where i: "i < d" "x i \<noteq> 0" using nz by blast
    have "0 < (x i)\<^sup>2" using i(2) by simp
    also have "\<dots> \<le> (\<Sum>i<d. (x i)\<^sup>2)" using i(1) by (intro member_le_sum) simp_all
    finally have "0 < e * (\<Sum>i<d. (x i)\<^sup>2)" using e by simp
    moreover have "0 \<le> (\<Sum>i<d. \<Sum>j<d. x i * R i j * x j)"
      unfolding R_def
      using k cdef
      by (rule corr_quadratic_nonneg[where c = c and a = "centred X" and n = "length X" and k = k])
    ultimately show ?thesis using split second by simp
  qed
  show ?thesis
    by (intro exI[of _ m]) (use entry msym pd in auto)
qed

lemma class_rows_nth:
  assumes "q < length labels" "labels ! q = c"
  shows "\<exists>t<length (np_where_eq labels c).
           map (\<lambda>smp. smp ! 0) (map (\<lambda>i. samples data ! i) (np_where_eq labels c)) ! t
           = samples data ! q ! 0"
proof -
  have "q \<in> set (np_where_eq labels c)" using assms by (simp add: np_where_eq_def)
  then obtain t where t: "t < length (np_where_eq labels c)" "np_where_eq labels c ! t = q"
    by (auto simp: in_set_conv_nth)
  then show ?thesis by (intro exI[of _ t]) simp
qed

text \<open>
  What holds of the estimate beside the failure above: for a considered class with at
  least 2 samples in which no pixel of channel 0 is constant, the matrix stored for the
  class has finite entries, equals its transpose, and is positive definite (its quadratic
  form is positive on every non-zero vector), however few the samples are against the
  \<open>H * W\<close> pixels.
\<close>

theorem estimate_positive_definite:
  assumes pipe: "images_transform_pipeline C inputs resize_to crop_to = (imgs, data)"
    and chans: "channels data = 3"
    and aligned: "length (items labels) \<le> length (samples data)"
    and elementwise:
      "is_ndarray labels \<or> (case specific_classes of None \<Rightarrow> True | Some cs \<Rightarrow> is_ndarray cs)"
    and considered:
      "c \<in> set (case specific_classes of None \<Rightarrow> np_unique (items labels) | Some cs \<Rightarrow> items cs)"
    and two: "2 \<le> count_list (items labels) c"
    and varies: "\<And>i. i < height data * width data \<Longrightarrow>
        \<exists>q q'. q < length (items labels) \<and> q' < length (items labels) \<and>
               items labels ! q = c \<and> items labels ! q' = c \<and>
               samples data ! q ! 0 ! i \<noteq> samples data ! q' ! 0 ! i"
  shows "\<exists>cm M m. fst (init_corr_mat C inputs labels specific_classes resize_to crop_to save_path
                        visual s) = Inr cm \<and>
           cm c = Some M \<and> square M (height data * width data) \<and>
           (\<forall>i<height data * width data. \<forall>j<height data * width data.
               M ! i ! j = Finite (m i j) \<and> m i j = m j i) \<and>
           (\<forall>x. (\<exists>i<height data * width data. x i \<noteq> 0) \<longrightarrow>
               0 < (\<Sum>i<height data * width data. \<Sum>j<height data * width data.
                      x i * m i j * x j))"
proof -
  define d where "d = height data * width data"
  let ?ls = "items labels"
  define X where "X = map (\<lambda>smp. smp ! 0) (map (\<lambda>i. samples data ! i) (np_where_eq ?ls c))"
  let ?classes = "case specific_classes of None \<Rightarrow> np_unique ?ls | Some cs \<Rightarrow> items cs"
  let ?cm = "\<lambda>c. if c \<in> set ?classes \<and> 2 \<le> count_list ?ls c
                  then Some (class_matrix data ?ls c) else None"
  have res: "fst (init_corr_mat C inputs labels specific_classes resize_to crop_to save_path visual s)
        = Inr ?cm"
    using pipe chans
      corr_loop_result[OF aligned elementwise, of "nonzero_0d_raises C" ?classes Map.empty]
    by (simp add: init_corr_mat_def Let_def)
  have entry: "?cm c = Some (class_matrix data ?ls c)" using considered two by (simp add:)
  have M: "class_matrix data ?ls c = add_eye (np_corrcoef X d) d epsilon"
    by (simp add: class_matrix_def X_def d_def)
  have n2: "2 \<le> length X" using two by (simp add: X_def np_where_eq_length)
  have var: "0 < np_cov X d ! i ! i" if "i < d" for i
  proof -
    from varies[of i] that obtain q q' where q: "q < length ?ls" "?ls ! q = c"
      and q': "q' < length ?ls" "?ls ! q' = c"
      and ne: "samples data ! q ! 0 ! i \<noteq> samples data ! q' ! 0 ! i"
      by (auto simp: d_def)
    from class_rows_nth[OF q, of data] obtain t where t: "t < length X" "X ! t = samples data ! q ! 0"
      by (auto simp: X_def)
    from class_rows_nth[OF q', of data] obtain t' where t': "t' < length X" "X ! t' = samples data ! q' ! 0"
      by (auto simp: X_def)
    show ?thesis by (rule np_cov_pos[OF n2 that t(1) t'(1)]) (simp add: t t' ne)
  qed
  from estimator_matrix[OF n2 var, where e = epsilon] obtain m where
    m: "\<forall>i<d. \<forall>j<d. add_eye (np_corrcoef X d) d epsilon ! i ! j = Finite (m i j) \<and> m i j = m j i"
    and pd: "\<forall>x. 0 < epsilon \<and> (\<exists>i<d. x i \<noteq> 0) \<longrightarrow> 0 < (\<Sum>i<d. \<Sum>j<d. x i * m i j * x j)"
    by blast
  have eps: "0 < epsilon" by (simp add: epsilon_def)
  have sq: "square (class_matrix data ?ls c) d" by (simp add: M square_add_eye)
  have pd': "\<forall>x. (\<exists>i<d. x i \<noteq> 0) \<longrightarrow> 0 < (\<Sum>i<d. \<Sum>j<d. x i * m i j * x j)"
    using pd eps by simp
  have m': "\<forall>i<d. \<forall>j<d. class_matrix data ?ls c ! i ! j = Finite (m i j) \<and> m i j = m j i"
    using m by (simp only: M)
  show ?thesis
    unfolding d_def[symmetric]
    using res entry sq m' pd' by blast
qed

text \<open>Two samples against two pixels: the correlation matrix alone is singular.\<close>

theorem estimate_positive_definite_witness:
  "images_transform_pipeline ex_collaborators [''varied''] 64 None = ([], ex_varied) \<and>
   channels ex_varied = 3 \<and> length [0, 0 :: int] \<le> length (samples ex_varied) \<and>
   (0::int) \<in> set (np_unique [0, 0]) \<and> 2 \<le> count_list [0, 0 :: int] 0 \<and>
   (\<exists>cm M m. fst (init_corr_mat ex_collaborators [''varied''] (NdArray [0, 0]) None 64 None
                     None False ex_state) = Inr cm \<and>
        cm 0 = Some M \<and> square M 2 \<and>
        (\<forall>i<2. \<forall>j<2. M ! i ! j = Finite (m i j) \<and> m i j = m j i) \<and>
        (\<forall>x. (\<exists>i<2. x i \<noteq> 0) \<longrightarrow> 0 < (\<Sum>i<2. \<Sum>j<2. x i * m i j * x j)))"
proof -
  have p: "images_transform_pipeline ex_collaborators [''varied''] 64 None = ([], ex_varied)"
    by (simp add: ex_collaborators_def)
  have c: "channels ex_varied = 3" by (simp add: ex_varied_def)
  have a: "length (items (NdArray [0, 0])) \<le> length (samples ex_varied)"
    by (simp add: ex_varied_def)
  have e: "is_ndarray (NdArray [0, 0]) \<or> (case None of None \<Rightarrow> True | Some cs \<Rightarrow> is_ndarray cs)"
    by simp
  have u: "(0::int) \<in> set (case None of None \<Rightarrow> np_unique (items (NdArray [0, 0]))
                                | Some cs \<Rightarrow> items cs)"
    by (simp add: np_unique_def)
  have t: "2 \<le> count_list (items (NdArray [0, 0])) 0" by simp
  have v: "\<exists>q q'. q < length (items (NdArray [0, 0])) \<and> q' < length (items (NdArray [0, 0])) \<and>
               items (NdArray [0, 0]) ! q = 0 \<and> items (NdArray [0, 0]) ! q' = 0 \<and>
               samples ex_varied ! q ! 0 ! i \<noteq> samples ex_varied ! q' ! 0 ! i"
    if "i < height ex_varied * width ex_varied" for i
  proof -
    have "i = 0 \<or> i = 1" using that by (auto simp: ex_varied_def)
    then show ?thesis
      by (intro exI[of _ 0] exI[of _ 1]) (auto simp: ex_varied_def)
  qed
  have hw: "height ex_varied * width ex_varied = 2" by (simp add: ex_varied_def)
  from estimate_positive_definite[OF p c a e u t v, where save_path = None and visual = False
      and s = ex_state] p c a u t
  show ?thesis unfolding hw by (simp add: np_unique_def)
qed

end
